theory Spec2Isabelle
  imports Main
begin

section \<open>JavaScript values used by the admin API and the meeting page\<close>

text \<open>
  Numbers as the handlers see them: integers, and the three non-finite results that a
  division can produce. Fractions do not arise on the inputs modelled below.
\<close>

datatype jsnum = Fin int | NaN | PosInf | NegInf

datatype json =
    JNull
  | JBool bool
  | JNum jsnum
  | JStr string
  | JArr "json list"
  | JObj "(string \<times> json) list"

text \<open>JavaScript truthiness (\<^verbatim>\<open>!!v\<close>).\<close>

fun truthy :: "json \<Rightarrow> bool" where
  "truthy JNull = False"
| "truthy (JBool b) = b"
| "truthy (JNum (Fin n)) = (n \<noteq> 0)"
| "truthy (JNum NaN) = False"
| "truthy (JNum PosInf) = True"
| "truthy (JNum NegInf) = True"
| "truthy (JStr s) = (s \<noteq> [])"
| "truthy (JArr xs) = True"
| "truthy (JObj kv) = True"

text \<open>\<^verbatim>\<open>v || d\<close>, where \<open>None\<close> is \<^verbatim>\<open>undefined\<close>.\<close>

definition js_or :: "json option \<Rightarrow> json \<Rightarrow> json" where
  "js_or v d = (case v of None \<Rightarrow> d | Some x \<Rightarrow> if truthy x then x else d)"

text \<open>Property lookup \<^verbatim>\<open>o.k\<close>; a later duplicate key wins, as in a parsed JSON object.\<close>

definition field :: "json \<Rightarrow> string \<Rightarrow> json option" where
  "field v k = (case v of JObj kv \<Rightarrow> map_of (rev kv) k | _ \<Rightarrow> None)"

definition keys :: "json \<Rightarrow> string list" where
  "keys v = (case v of JObj kv \<Rightarrow> map fst kv | _ \<Rightarrow> [])"

section \<open>Admin REST front door (Api/server.js)\<close>

record response =
  status :: nat
  body :: json

text \<open>\<^verbatim>\<open>sendSuccess(res, data, statusCode = 200)\<close>\<close>

definition sendSuccess :: "json \<Rightarrow> nat \<Rightarrow> response" where
  "sendSuccess d statusCode =
     \<lparr>status = statusCode,
      body = JObj [(''success'', JBool True), (''data'', d), (''error'', JNull)]\<rparr>"

text \<open>
  \<^verbatim>\<open>sendError(res, message, statusCode = 400, details)\<close>. Every call site passes a
  string message; \<open>details\<close> is \<open>None\<close> for \<^verbatim>\<open>undefined\<close> and is attached only when
  truthy.
\<close>

definition sendError :: "string \<Rightarrow> nat \<Rightarrow> string option \<Rightarrow> response" where
  "sendError message statusCode details =
     \<lparr>status = statusCode,
      body = JObj [(''success'', JBool False), (''data'', JNull),
        (''error'', JObj ((''message'', JStr message) #
           (case details of
              None \<Rightarrow> []
            | Some d \<Rightarrow> if d = [] then [] else [(''details'', JStr d)])))]\<rparr>"

subsection \<open>The hosted backend as the handlers call it\<close>

text \<open>
  What an awaited backend call gives the handler: \<open>Returned v\<close> is
  \<^verbatim>\<open>{ data: v, error: null }\<close>, \<open>Failed m\<close> is \<^verbatim>\<open>{ data: null, error: { message: m } }\<close>,
  and \<open>Rejected m\<close> is a rejected promise whose value has \<^verbatim>\<open>message\<close> \<open>m\<close>
  (\<open>None\<close> when it has none), which the handler's outer \<^verbatim>\<open>catch\<close> receives.
\<close>

datatype 'a outcome = Returned 'a | Failed string | Rejected "string option"

record auth_backend =
  createUser :: "json \<Rightarrow> json option outcome"
  insertProfile :: "json \<Rightarrow> json outcome"
  deleteUser :: "json \<Rightarrow> unit outcome"

datatype backend_call = CreateUser json | InsertProfile json | DeleteUser json

text \<open>The row that \<^verbatim>\<open>POST /users\<close> inserts into the users table.\<close>

definition insertPayload :: "json \<Rightarrow> json \<Rightarrow> json option \<Rightarrow> json option \<Rightarrow> json" where
  "insertPayload uid email first_name last_name =
     JObj [(''uid'', uid), (''email'', email),
           (''first_name'', js_or first_name JNull),
           (''last_name'', js_or last_name JNull),
           (''role'', JStr ''user''),
           (''is_active'', JBool True)]"

definition createUserAttrs :: "json \<Rightarrow> json \<Rightarrow> json option \<Rightarrow> json option \<Rightarrow> json" where
  "createUserAttrs email password first_name last_name =
     JObj [(''email'', email), (''password'', password), (''email_confirm'', JBool True),
           (''user_metadata'',
              JObj [(''first_name'', js_or first_name JNull),
                    (''last_name'', js_or last_name JNull)])]"

text \<open>
  \<^verbatim>\<open>app.post('/users', ...)\<close>, from the insert on. The compensating
  \<^verbatim>\<open>deleteUser\<close> sits in its own \<^verbatim>\<open>try { ... } catch (_) {}\<close>: whatever it gives,
  the handler goes on to the 500 response.
\<close>

definition post_users_insert ::
  "auth_backend \<Rightarrow> json \<Rightarrow> json \<Rightarrow> json \<Rightarrow> json \<Rightarrow> response \<times> backend_call list" where
  "post_users_insert be attrs authUser uid payload =
     (case insertProfile be payload of
        Rejected m \<Rightarrow>
          (sendError ''Unexpected error creating user'' 500 m,
           [CreateUser attrs, InsertProfile payload])
      | Failed m \<Rightarrow>
          (case deleteUser be uid of
             Returned u \<Rightarrow>
               (sendError ''Failed to insert user profile'' 500 (Some m),
                [CreateUser attrs, InsertProfile payload, DeleteUser uid])
           | Failed d \<Rightarrow>
               (sendError ''Failed to insert user profile'' 500 (Some m),
                [CreateUser attrs, InsertProfile payload, DeleteUser uid])
           | Rejected d \<Rightarrow>
               (sendError ''Failed to insert user profile'' 500 (Some m),
                [CreateUser attrs, InsertProfile payload, DeleteUser uid]))
      | Returned profile \<Rightarrow>
          (sendSuccess (JObj [(''authUser'', authUser), (''profile'', profile)]) 201,
           [CreateUser attrs, InsertProfile payload]))"

text \<open>The handler from the \<^verbatim>\<open>createUser\<close> call on, for a truthy email and password.\<close>

definition post_users_create ::
  "auth_backend \<Rightarrow> json \<Rightarrow> json \<Rightarrow> json option \<Rightarrow> json option \<Rightarrow> response \<times> backend_call list" where
  "post_users_create be email password first_name last_name =
     (let attrs = createUserAttrs email password first_name last_name;
          id_missing = (sendError ''Auth user created but user id missing'' 500 None,
                        [CreateUser attrs])
      in case createUser be attrs of
           Rejected m \<Rightarrow>
             (sendError ''Unexpected error creating user'' 500 m, [CreateUser attrs])
         | Failed m \<Rightarrow>
             (sendError (if m = [] then ''Failed to create auth user'' else m) 400 None,
              [CreateUser attrs])
         | Returned None \<Rightarrow> id_missing
         | Returned (Some authUser) \<Rightarrow>
             (case field authUser ''id'' of
                None \<Rightarrow> id_missing
              | Some uid \<Rightarrow>
                  if \<not> truthy uid then id_missing
                  else post_users_insert be attrs authUser uid
                         (insertPayload uid email first_name last_name)))"

text \<open>
  \<^verbatim>\<open>app.post('/users', ...)\<close>. The request body is \<open>None\<close> when absent
  (\<^verbatim>\<open>req.body || {}\<close>); a body that is not an object has none of the four fields. The
  result is the response together with the backend calls made, in order.
\<close>

definition post_users :: "auth_backend \<Rightarrow> json option \<Rightarrow> response \<times> backend_call list" where
  "post_users be req_body =
     (let b = js_or req_body (JObj []);
          required = (sendError ''email and password are required'' 400 None, [])
      in case field b ''email'' of
           None \<Rightarrow> required
         | Some email \<Rightarrow>
             (case field b ''password'' of
                None \<Rightarrow> required
              | Some password \<Rightarrow>
                  if \<not> truthy email \<or> \<not> truthy password then required
                  else post_users_create be email password
                         (field b ''first_name'') (field b ''last_name'')))"

subsection \<open>Paginated listings\<close>

text \<open>
  A \<^verbatim>\<open>page\<close> or \<^verbatim>\<open>limit\<close> query parameter is absent or a string. The strings
  modelled are the canonical decimal numerals: \<open>Digits n\<close> is the numeral of \<open>n\<close>.
  Other strings (signs, fractions, exponents, non-numeric text) are not in this type.
\<close>

datatype qparam = Absent | Digits nat

text \<open>
  \<^verbatim>\<open>const { page = 1, limit = 10 } = req.query\<close>, read as a number. The numbers
  are exact integers; the doubles of the source agree with them below \<open>2 ^ 53\<close>.
\<close>

definition qnum :: "nat \<Rightarrow> qparam \<Rightarrow> int" where
  "qnum dflt q = (case q of Absent \<Rightarrow> int dflt | Digits n \<Rightarrow> int n)"

function ndigits :: "nat \<Rightarrow> nat" where
  "ndigits n = (if n < 10 then 1 else Suc (ndigits (n div 10)))"
  by pat_completeness auto
termination
  by (relation "measure (\<lambda>n. n)") auto

text \<open>
  \<^verbatim>\<open>from + limit\<close>: \<open>from\<close> is a number; when \<open>limit\<close> came from the query string the
  \<^verbatim>\<open>+\<close> concatenates the decimal text of \<open>from\<close> with the numeral, and the following
  \<^verbatim>\<open>- 1\<close> reads the text back as a number.
\<close>

definition js_plus :: "int \<Rightarrow> nat \<Rightarrow> qparam \<Rightarrow> int" where
  "js_plus a dflt q =
     (case q of
        Absent \<Rightarrow> a + int dflt
      | Digits n \<Rightarrow>
          if a < 0 then - (\<bar>a\<bar> * 10 ^ ndigits n + int n) else a * 10 ^ ndigits n + int n)"

text \<open>\<^verbatim>\<open>Math.ceil(count / limit)\<close>; a \<^verbatim>\<open>null\<close> count reads as 0.\<close>

definition ceil_div :: "nat option \<Rightarrow> int \<Rightarrow> jsnum" where
  "ceil_div c l =
     (let n = (case c of None \<Rightarrow> 0 | Some k \<Rightarrow> int k)
      in if l = 0 then (if n = 0 then NaN else PosInf)
         else Fin (- ((- n) div l)))"

text \<open>
  A select as the query builder sends it. \<open>q_count\<close> records whether the select asked
  for a count (\<^verbatim>\<open>{ count: 'exact' }\<close>, as the dashboard statistics do); \<open>q_columns\<close> is
  \<open>None\<close> for \<^verbatim>\<open>'*'\<close>.
\<close>

record select_query =
  q_table :: string
  q_columns :: "string list option"
  q_count :: bool
  q_range :: "(int \<times> int) option"
  q_eq :: "(string \<times> json) option"

record select_result =
  r_data :: "json list option"
  r_error :: "string option"
  r_count :: "nat option"

text \<open>
  The tables behind the API. A table is its rows, or a failure of every select on it
  (returned as an error, or as a rejected promise).
\<close>

datatype table = Rows "json list" | Broken string | Unreachable "string option"

type_synonym database = "string \<Rightarrow> table"

definition created_at :: "json \<Rightarrow> int" where
  "created_at r = (case field r ''created_at'' of Some (JNum (Fin t)) \<Rightarrow> t | _ \<Rightarrow> 0)"

definition project :: "string list option \<Rightarrow> json \<Rightarrow> json" where
  "project cols r =
     (case cols of
        None \<Rightarrow> r
      | Some cs \<Rightarrow> JObj (List.filter (\<lambda>kv. fst kv \<in> set cs) (case r of JObj kv \<Rightarrow> kv | _ \<Rightarrow> [])))"

text \<open>
  The select as the hosted database answers it: the matching rows, newest first, cut to
  the requested range. The number of matching rows is reported only to a select that
  asked for a count; otherwise the result's \<^verbatim>\<open>count\<close> is \<^verbatim>\<open>null\<close>. A range that
  starts below 0 or ends before it starts is refused.
\<close>

definition run_select :: "database \<Rightarrow> select_query \<Rightarrow> select_result outcome" where
  "run_select db q =
     (case db (q_table q) of
        Unreachable m \<Rightarrow> Rejected m
      | Broken m \<Rightarrow> Returned \<lparr>r_data = None, r_error = Some m, r_count = None\<rparr>
      | Rows rows \<Rightarrow>
          (let matching = (case q_eq q of
                             None \<Rightarrow> rows
                           | Some (k, v) \<Rightarrow> List.filter (\<lambda>r. field r k = Some v) rows);
               ordered = rev (sort_key created_at matching)
           in case q_range q of
                None \<Rightarrow>
                  Returned \<lparr>r_data = Some (map (project (q_columns q)) ordered), r_error = None,
                            r_count = (if q_count q then Some (length matching) else None)\<rparr>
              | Some (lo, hi) \<Rightarrow>
                  if lo < 0 \<or> hi < lo
                  then Returned \<lparr>r_data = None,
                                 r_error = Some ''Requested range not satisfiable'',
                                 r_count = None\<rparr>
                  else Returned
                         \<lparr>r_data = Some (map (project (q_columns q))
                                      (take (nat (hi - lo + 1)) (drop (nat lo) ordered))),
                          r_error = None,
                          r_count = (if q_count q then Some (length matching) else None)\<rparr>))"

definition pagination :: "qparam \<Rightarrow> qparam \<Rightarrow> nat option \<Rightarrow> json" where
  "pagination page limit count =
     JObj [(''page'', JNum (Fin (qnum 1 page))),
           (''limit'', JNum (Fin (qnum 10 limit))),
           (''total'', (case count of None \<Rightarrow> JNull | Some c \<Rightarrow> JNum (Fin (int c)))),
           (''totalPages'', JNum (ceil_div count (qnum 10 limit)))]"

text \<open>
  The listing shared by \<^verbatim>\<open>GET /users\<close> and \<^verbatim>\<open>GET /meetings\<close>: both build the range
  from \<^verbatim>\<open>page\<close> and \<^verbatim>\<open>limit\<close> the same way and answer in the same shape; they differ
  in the table, the columns, the filter and the words of the messages.
\<close>

definition listing ::
  "database \<Rightarrow> string \<Rightarrow> string list option \<Rightarrow> (string \<times> json) option \<Rightarrow>
   qparam \<Rightarrow> qparam \<Rightarrow> response" where
  "listing db tbl cols flt page limit =
     (let lo = (qnum 1 page - 1) * qnum 10 limit;
          hi = js_plus lo 10 limit - 1
      in case run_select db \<lparr>q_table = tbl, q_columns = cols, q_count = False,
                              q_range = Some (lo, hi), q_eq = flt\<rparr> of
           Rejected m \<Rightarrow> sendError (''Unexpected error fetching '' @ tbl) 500 m
         | Failed m \<Rightarrow> sendError (''Failed to fetch '' @ tbl) 500 (Some m)
         | Returned r \<Rightarrow>
             (case r_error r of
                Some m \<Rightarrow> sendError (''Failed to fetch '' @ tbl) 500 (Some m)
              | None \<Rightarrow>
                  sendSuccess
                    (JObj [(tbl, JArr (case r_data r of None \<Rightarrow> [] | Some rows \<Rightarrow> rows)),
                           (''pagination'', pagination page limit (r_count r))])
                    200))"

text \<open>
  \<^verbatim>\<open>app.get('/users', ...)\<close>: \<open>active\<close> is the \<^verbatim>\<open>active\<close> query parameter, \<open>None\<close>
  when absent.
\<close>

definition get_users :: "database \<Rightarrow> qparam \<Rightarrow> qparam \<Rightarrow> string option \<Rightarrow> response" where
  "get_users db page limit active =
     listing db ''users''
       (Some [''uid'', ''email'', ''first_name'', ''last_name'', ''role'', ''is_active'',
              ''created_at''])
       (case active of None \<Rightarrow> None | Some a \<Rightarrow> Some (''is_active'', JBool (a = ''true'')))
       page limit"

text \<open>\<^verbatim>\<open>app.get('/meetings', ...)\<close>\<close>

definition get_meetings :: "database \<Rightarrow> qparam \<Rightarrow> qparam \<Rightarrow> response" where
  "get_meetings db page limit = listing db ''meetings'' None None page limit"

text \<open>Reading a response body.\<close>

definition success_of :: "response \<Rightarrow> json option" where
  "success_of r = field (body r) ''success''"

definition data_of :: "response \<Rightarrow> json option" where
  "data_of r = field (body r) ''data''"

definition pagination_of :: "response \<Rightarrow> json option" where
  "pagination_of r = (case data_of r of None \<Rightarrow> None | Some d \<Rightarrow> field d ''pagination'')"

subsection \<open>Sample backends and requests\<close>

text \<open>
  A backend whose auth service and users table succeed or fail as the two flags say; the
  compensating deletion itself is rejected. The sample request also sends \<^verbatim>\<open>role\<close>
  and \<^verbatim>\<open>is_active\<close>.
\<close>

definition sample_backend :: "bool \<Rightarrow> bool \<Rightarrow> auth_backend" where
  "sample_backend create_ok insert_ok =
     \<lparr>createUser = (\<lambda>attrs. if create_ok
                       then Returned (Some (JObj [(''id'', JStr ''u-17''),
                                                   (''email'', js_or (field attrs ''email'') JNull)]))
                       else Failed ''User already registered''),
      insertProfile = (\<lambda>row. if insert_ok then Returned row
                        else Failed ''duplicate key value violates unique constraint''),
      deleteUser = (\<lambda>uid. Rejected None)\<rparr>"

definition sample_body :: json where
  "sample_body = JObj [(''email'', JStr ''jane@example.com''), (''password'', JStr ''pw''),
                       (''first_name'', JStr ''Jane''), (''role'', JStr ''admin''),
                       (''is_active'', JBool False)]"

text \<open>A database with three user rows, one of them inactive.\<close>

definition sample_db :: database where
  "sample_db = (\<lambda>t. if t = ''users'' then Rows [
     JObj [(''uid'', JStr ''u1''), (''is_active'', JBool True), (''created_at'', JNum (Fin 1))],
     JObj [(''uid'', JStr ''u2''), (''is_active'', JBool True), (''created_at'', JNum (Fin 2))],
     JObj [(''uid'', JStr ''u3''), (''is_active'', JBool False), (''created_at'', JNum (Fin 3))]]
   else Rows [])"

section \<open>Strings\<close>

text \<open>
  Display names and identifiers are modelled as ASCII strings. The whitespace that
  \<^verbatim>\<open>trim()\<close> strips and that the whitespace class of a regular expression matches is
  then space, tab, line feed, vertical tab, form feed and carriage return.
\<close>

definition is_space :: "char \<Rightarrow> bool" where
  "is_space c = (c \<in> set [CHR '' '', CHR 0x09, CHR 0x0A, CHR 0x0B, CHR 0x0C, CHR 0x0D])"

text \<open>\<^verbatim>\<open>s.trim()\<close>\<close>

definition trim :: "string \<Rightarrow> string" where
  "trim s = rev (dropWhile is_space (rev (dropWhile is_space s)))"

text \<open>\<^verbatim>\<open>toLowerCase()\<close> on ASCII: the 26 capitals map to their small letters.\<close>

definition lower_char :: "char \<Rightarrow> char" where
  "lower_char c =
     (case map_of (zip ''ABCDEFGHIJKLMNOPQRSTUVWXYZ'' ''abcdefghijklmnopqrstuvwxyz'') c of
        None \<Rightarrow> c
      | Some l \<Rightarrow> l)"

definition toLowerCase :: "string \<Rightarrow> string" where
  "toLowerCase s = map lower_char s"

text \<open>
  The whitespace-collapsing replace of \<^verbatim>\<open>normalize\<close>: every run of whitespace becomes
  one space.
\<close>

function collapse_ws :: "string \<Rightarrow> string" where
  "collapse_ws [] = []"
| "collapse_ws (c # cs) =
     (if is_space c then CHR '' '' # collapse_ws (dropWhile is_space cs)
      else c # collapse_ws cs)"
  by pat_completeness auto
termination
  by (relation "measure length") (auto simp: le_imp_less_Suc length_dropWhile_le)

text \<open>
  Whether a string is a trailing parenthetical: optional whitespace, an opening
  parenthesis, anything up to the first closing parenthesis, then only whitespace.
\<close>

definition paren_tail :: "string \<Rightarrow> bool" where
  "paren_tail t =
     (case dropWhile is_space t of
        [] \<Rightarrow> False
      | c # r \<Rightarrow>
          c = CHR ''('' \<and>
          (case dropWhile (\<lambda>x. x \<noteq> CHR '')'') r of
             [] \<Rightarrow> False
           | d # w \<Rightarrow> list_all is_space w))"

text \<open>
  The first replace of \<^verbatim>\<open>normalize\<close>: the leftmost suffix that is a trailing
  parenthetical is removed.
\<close>

fun strip_paren :: "string \<Rightarrow> string" where
  "strip_paren [] = []"
| "strip_paren (c # cs) = (if paren_tail (c # cs) then [] else c # strip_paren cs)"

text \<open>
  The page's \<^verbatim>\<open>normalize\<close> helper (written out five times in the source):
  \<^verbatim>\<open>(s || '')\<close>, trailing parenthetical removed, diacritics removed, whitespace collapsed,
  trimmed, lower-cased. On ASCII strings \<^verbatim>\<open>normalize('NFKD')\<close> changes nothing and no code
  unit lies in U+0300..U+036F, so the diacritics step leaves the string as it is.
\<close>

definition normalize :: "string option \<Rightarrow> string" where
  "normalize s =
     toLowerCase (trim (collapse_ws (strip_paren (case s of None \<Rightarrow> [] | Some v \<Rightarrow> v))))"

text \<open>\<^verbatim>\<open>s.includes(sub)\<close>\<close>

fun str_includes :: "string \<Rightarrow> string \<Rightarrow> bool" where
  "str_includes [] sub = (sub = [])"
| "str_includes (c # cs) sub = (take (length sub) (c # cs) = sub \<or> str_includes cs sub)"

section \<open>Meeting page (the MeetingPage component, Api/server.js from line 3299)\<close>

datatype toast = Toast string string string

record meeting_row =
  host_token :: "string option"
  admin_ids :: "string list option"
  admin_display_names :: "string list option"
  banned_display_names :: "string option list option"
  host_participant_id :: "string option"
  whiteboard_open :: bool

record session =
  s_id :: string
  s_displayName :: string
  s_isHost :: bool
  s_row :: meeting_row

record participant_info =
  participantId :: "string option"
  p_displayName :: "string option"
  formattedDisplayName :: "string option"
  isModerator :: bool
  p_role :: "string option"

datatype thrown = JsError string string

datatype command =
    KickParticipant string
  | MuteParticipant string
  | MuteEveryone
  | GrantModerator string
  | RevokeModerator string
  | StartRecordingFile
  | StartRecordingYoutube string
  | StartRecordingRtmp string string
  | StopRecording string
  | Hangup
  | SendEndpointTextMessage "string option" "string option"
  | ToggleWhiteboard
  | ToggleLobby

datatype participants_view = NoList | ListThrows | Listed "participant_info list"

record jitsi_api =
  myUserId :: "string option"
  getParticipantsInfo :: participants_view
  command_throws :: "command \<Rightarrow> thrown option"

record user =
  u_email :: "string option"
  full_name :: "string option"

record page =
  activeMeeting :: "session option"
  jitsiApi :: "jitsi_api option"
  currentUser :: "user option"
  userName :: string
  isPageLoading :: bool
  isJitsiLoading :: bool
  canJoinMeeting :: bool
  isWaitingForHost :: bool
  adminJwt :: "string option"
  adminIds :: "string list"
  adminDisplayNames :: "string list"
  isCurrentAdmin :: bool
  prevIsAdmin :: bool
  roleEventTick :: nat
  localAdminOverride :: "bool option"
  hostParticipantId :: "string option"
  whiteboardOpen :: bool
  activeToast :: "toast option"
  toasts :: "toast list"
  navigations :: "string list"
  jwtRequests :: nat
  commands :: "command list"

definition initial_page :: page where
  "initial_page =
     \<lparr>activeMeeting = None, jitsiApi = None, currentUser = None, userName = [],
      isPageLoading = True, isJitsiLoading = False, canJoinMeeting = False,
      isWaitingForHost = False, adminJwt = None, adminIds = [], adminDisplayNames = [],
      isCurrentAdmin = False, prevIsAdmin = False, roleEventTick = 0,
      localAdminOverride = None, hostParticipantId = None, whiteboardOpen = False,
      activeToast = None, toasts = [], navigations = [], jwtRequests = 0, commands = []\<rparr>"

text \<open>
  \<^verbatim>\<open>showToast\<close> overwrites the one toast slot of the page
  (\<^verbatim>\<open>setActiveToast({ id: Date.now(), ...toastData })\<close>, rendered as a single
  \<^verbatim>\<open>Toast\<close>); the clock reading that serves as its key is left out. \<open>toasts\<close> is
  the log of the calls, in order: it is not what the screen shows.
\<close>

definition showToast :: "toast \<Rightarrow> page \<Rightarrow> page" where
  "showToast t s = s\<lparr>activeToast := Some t, toasts := toasts s @ [t]\<rparr>"

definition navigate :: "string \<Rightarrow> page \<Rightarrow> page" where
  "navigate p s = s\<lparr>navigations := navigations s @ [p]\<rparr>"

definition str_truthy :: "string option \<Rightarrow> bool" where
  "str_truthy v = (case v of None \<Rightarrow> False | Some x \<Rightarrow> x \<noteq> [])"

definition str_or :: "string option \<Rightarrow> string \<Rightarrow> string" where
  "str_or v d = (case v of None \<Rightarrow> d | Some x \<Rightarrow> if x = [] then d else x)"

subsection \<open>Session Resolver\<close>

datatype jwt_outcome = JwtResolved string | JwtRejected "string option" | JwtTimeout

record resolver_env =
  meetingId :: "string option"
  pathname :: string
  localStorage :: "string \<Rightarrow> string option"
  settledJoinAsGuest :: bool
  settledSession :: "user option"
  fetchMeeting :: "string \<Rightarrow> meeting_row option"
  createAdminJwt :: jwt_outcome

datatype validation = Invalid string | Valid string bool

definition validateMeetingAccess :: "string option \<Rightarrow> string \<Rightarrow> validation" where
  "validateMeetingAccess mid currentPath =
     (if \<not> str_truthy mid then Invalid ''Invalid meeting ID''
      else
        let cleanMeetingId = trim (str_or mid []);
            isWebinarPath = str_includes currentPath ''/meeting/webinar/'';
            isRegularPath = (str_includes currentPath ''/meeting/'' \<and> \<not> isWebinarPath)
        in if length cleanMeetingId < 1 then Invalid ''Meeting ID cannot be empty''
           else if \<not> isWebinarPath \<and> \<not> isRegularPath
           then Invalid ''Invalid meeting URL structure''
           else Valid cleanMeetingId isWebinarPath)"

definition role :: "resolver_env \<Rightarrow> string" where
  "role env = toLowerCase (str_or (localStorage env ''role'') [])"

definition landing :: "resolver_env \<Rightarrow> string" where
  "landing env = (if role env = ''admin'' then ''/meeting'' else ''/home'')"

definition isWebinarMode :: "resolver_env \<Rightarrow> bool" where
  "isWebinarMode env = str_includes (pathname env) ''/meeting/webinar/''"

definition guestPath :: "resolver_env \<Rightarrow> string \<Rightarrow> string" where
  "guestPath env mid =
     (if isWebinarMode env then ''/guest/webinar/'' @ mid else ''/guest/'' @ mid)"

definition joinAsGuest :: "resolver_env \<Rightarrow> bool" where
  "joinAsGuest env = (localStorage env ''joinAsGuest'' = Some ''true'')"

record identity =
  isGuest :: bool
  i_displayName :: string
  i_currentUser :: "user option"

text \<open>
  Steps 1 and 2 of \<^verbatim>\<open>initializeMeeting\<close>: \<open>None\<close> is the redirect to the guest entry
  route. \<open>settledSession\<close> and \<open>settledJoinAsGuest\<close> are what the re-check after the
  150 ms delay reads.
\<close>

definition resolve_identity :: "resolver_env \<Rightarrow> page \<Rightarrow> identity option" where
  "resolve_identity env s =
     (let storedGuestName = str_or (localStorage env ''userName'') ''Guest'';
          ident = \<lparr>isGuest = joinAsGuest env,
                   i_displayName = (if joinAsGuest env then storedGuestName
                                    else str_or (Some (userName s)) ''User''),
                   i_currentUser = currentUser s\<rparr>
      in if currentUser s = None \<and> \<not> joinAsGuest env
         then (case settledSession env of
                 None \<Rightarrow> if \<not> settledJoinAsGuest env then None else Some ident
               | Some u \<Rightarrow>
                   Some (ident\<lparr>i_currentUser := Some u, isGuest := False,
                               i_displayName :=
                                 (if i_displayName ident = [] \<or> i_displayName ident = ''User''
                                  then str_or (full_name u) ''User''
                                  else i_displayName ident)\<rparr>))
         else Some ident)"

text \<open>Step 4: the ban check, on trimmed and lower-cased names.\<close>

definition isBanned :: "meeting_row \<Rightarrow> string \<Rightarrow> bool" where
  "isBanned meetingData displayName =
     (let banned = (case banned_display_names meetingData of None \<Rightarrow> [] | Some b \<Rightarrow> b);
          normalizedName = toLowerCase (trim displayName)
      in list_ex (\<lambda>name. toLowerCase (trim (str_or name [])) = normalizedName) banned)"

text \<open>Step 5: \<^verbatim>\<open>!!(localHostToken && localHostToken === meetingData.host_token)\<close>.\<close>

definition isHost :: "resolver_env \<Rightarrow> string \<Rightarrow> meeting_row \<Rightarrow> bool" where
  "isHost env cleanMeetingId meetingData =
     (let localHostToken = localStorage env (''hostToken_'' @ cleanMeetingId)
      in str_truthy localHostToken \<and> localHostToken = host_token meetingData)"

text \<open>
  \<^verbatim>\<open>handleHostJoin\<close>: the credential request raced against the 5000 ms timer. \<open>Inl\<close> is
  an exception leaving the function: the \<^verbatim>\<open>catch\<close> block reads
  \<^verbatim>\<open>error.message.includes\<close>, which itself throws when the rejection value has no
  message.
\<close>

definition handleHostJoin :: "resolver_env \<Rightarrow> page \<Rightarrow> unit + page" where
  "handleHostJoin env s0 =
     (let s = s0\<lparr>jwtRequests := jwtRequests s0 + 1\<rparr>;
          fallback = (\<lambda>errorMessage.
             (showToast (Toast ''Host Setup Error'' errorMessage ''warning'') s)
               \<lparr>adminJwt := None, canJoinMeeting := True, isWaitingForHost := False,
                isJitsiLoading := True\<rparr>)
      in case createAdminJwt env of
           JwtResolved token \<Rightarrow>
             Inr (s\<lparr>adminJwt := Some token, canJoinMeeting := True, isWaitingForHost := False,
                    isJitsiLoading := True\<rparr>)
         | JwtTimeout \<Rightarrow> Inr (fallback ''Host setup taking too long. Joining as participant.'')
         | JwtRejected None \<Rightarrow> Inl ()
         | JwtRejected (Some m) \<Rightarrow>
             Inr (fallback
                    (if str_includes m ''timeout''
                     then ''Host setup taking too long. Joining as participant.''
                     else ''Failed to initialize host privileges. Joining as participant.'')))"

definition handleParticipantJoin :: "page \<Rightarrow> page" where
  "handleParticipantJoin s =
     s\<lparr>adminJwt := None, canJoinMeeting := True, isWaitingForHost := False,
       isJitsiLoading := True\<rparr>"

text \<open>Steps 3 to 7, inside the \<^verbatim>\<open>try\<close>, for a resolved identity.\<close>

definition join_meeting :: "resolver_env \<Rightarrow> string \<Rightarrow> identity \<Rightarrow> page \<Rightarrow> page" where
  "join_meeting env cleanMeetingId ident s =
     (case fetchMeeting env cleanMeetingId of
        None \<Rightarrow>
          if currentUser s = None \<and> \<not> joinAsGuest env
          then navigate (guestPath env (str_or (meetingId env) [])) s
          else navigate (landing env)
                 (showToast (Toast ''Error'' ''Meeting not found or access denied.'' ''error'') s)
      | Some meetingData \<Rightarrow>
          if isBanned meetingData (i_displayName ident)
          then navigate (landing env)
                 (showToast
                    (Toast ''Access Denied'' ''You have been removed from this meeting.'' ''error'')
                    s)
          else
            let meetingConfig = \<lparr>s_id = cleanMeetingId, s_displayName = i_displayName ident,
                                 s_isHost = isHost env cleanMeetingId meetingData,
                                 s_row = meetingData\<rparr>;
                s1 = s\<lparr>activeMeeting := Some meetingConfig\<rparr>
            in if s_isHost meetingConfig
               then (case handleHostJoin env s1 of
                       Inr s2 \<Rightarrow> s2
                     | Inl e \<Rightarrow>
                         navigate (landing env)
                           (showToast
                              (Toast ''Connection Error''
                                 ''Unable to connect to meeting. Please try again.'' ''error'')
                              (s1\<lparr>jwtRequests := jwtRequests s1 + 1\<rparr>)))
               else handleParticipantJoin s1)"

text \<open>\<^verbatim>\<open>activeMeeting?.id === validation.cleanMeetingId && jitsiApi\<close>\<close>

definition already_initialized :: "page \<Rightarrow> string \<Rightarrow> bool" where
  "already_initialized s cleanMeetingId =
     ((case activeMeeting s of None \<Rightarrow> False | Some m \<Rightarrow> s_id m = cleanMeetingId) \<and>
      jitsiApi s \<noteq> None)"

text \<open>
  \<^verbatim>\<open>initializeMeeting\<close>, run by the effect on the meeting id. The timers that later
  clear the loading flag are not part of it.
\<close>

definition initializeMeeting :: "resolver_env \<Rightarrow> page \<Rightarrow> page" where
  "initializeMeeting env s =
     (if \<not> str_truthy (meetingId env) then s
      else case validateMeetingAccess (meetingId env) (pathname env) of
             Invalid err \<Rightarrow>
               navigate (landing env) (showToast (Toast ''Invalid Meeting Link'' err ''error'') s)
           | Valid cleanMeetingId isWebinar \<Rightarrow>
               if already_initialized s cleanMeetingId
               then s\<lparr>isPageLoading := False\<rparr>
               else
                 let s1 = s\<lparr>isPageLoading := True, isJitsiLoading := False,
                            canJoinMeeting := False, isWaitingForHost := False\<rparr>
                 in (case resolve_identity env s1 of
                       None \<Rightarrow> navigate (guestPath env (str_or (meetingId env) [])) s1
                     | Some ident \<Rightarrow> join_meeting env cleanMeetingId ident s1)
                    \<lparr>isPageLoading := False\<rparr>)"

text \<open>The condition under which the page renders the conferencing widget.\<close>

definition widget_mounted :: "page \<Rightarrow> bool" where
  "widget_mounted s =
     (case activeMeeting s of
        None \<Rightarrow> False
      | Some m \<Rightarrow> (s_isHost m \<and> str_truthy (adminJwt s)) \<or> (\<not> s_isHost m \<and> canJoinMeeting s))"

subsection \<open>Role Reconciler\<close>

definition granted_toast :: toast where
  "granted_toast = Toast ''Admin rights granted'' ''You now have admin controls.'' ''success''"

definition removed_toast :: toast where
  "removed_toast = Toast ''Admin rights removed'' ''You are no longer an admin.'' ''info''"

text \<open>
  The effect that computes \<^verbatim>\<open>isCurrentAdmin\<close>. \<open>compute_next\<close> is the value of
  \<^verbatim>\<open>next\<close>; without a widget instance the effect returns before computing anything.
\<close>

definition find_me :: "jitsi_api \<Rightarrow> participant_info option" where
  "find_me api =
     (case getParticipantsInfo api of
        Listed list \<Rightarrow> List.find (\<lambda>p. participantId p = myUserId api) list
      | _ \<Rightarrow> None)"

definition my_isModerator :: "jitsi_api \<Rightarrow> bool" where
  "my_isModerator api =
     (case getParticipantsInfo api of
        ListThrows \<Rightarrow> False
      | _ \<Rightarrow> (case find_me api of
                None \<Rightarrow> False
              | Some me \<Rightarrow> isModerator me \<or> p_role me = Some ''moderator''))"

definition myNameNorm :: "jitsi_api \<Rightarrow> session option \<Rightarrow> string" where
  "myNameNorm api am =
     (let fromMeeting = normalize (Some (str_or (map_option s_displayName am) []))
      in case getParticipantsInfo api of
           ListThrows \<Rightarrow> fromMeeting
         | _ \<Rightarrow> (case find_me api of
                   None \<Rightarrow> fromMeeting
                 | Some me \<Rightarrow>
                     if str_truthy (p_displayName me) \<or> str_truthy (formattedDisplayName me)
                     then normalize
                            (Some (if str_truthy (formattedDisplayName me)
                                   then str_or (formattedDisplayName me) []
                                   else str_or (p_displayName me) []))
                     else fromMeeting))"

definition compute_next :: "jitsi_api \<Rightarrow> page \<Rightarrow> bool" where
  "compute_next api s =
     (let dbAdminById = (str_truthy (myUserId api) \<and> str_or (myUserId api) [] \<in> set (adminIds s));
          name = myNameNorm api (activeMeeting s);
          dbAdminByName = (name \<noteq> [] \<and> name \<in> set (adminDisplayNames s));
          host = (case activeMeeting s of None \<Rightarrow> False | Some m \<Rightarrow> s_isHost m)
      in case localAdminOverride s of
           Some True \<Rightarrow> True
         | Some False \<Rightarrow> False
         | None \<Rightarrow> my_isModerator api \<or> dbAdminById \<or> dbAdminByName \<or> host)"

definition recompute_admin :: "page \<Rightarrow> page" where
  "recompute_admin s =
     (case jitsiApi s of
        None \<Rightarrow> s
      | Some api \<Rightarrow> s\<lparr>isCurrentAdmin := compute_next api s\<rparr>)"

text \<open>The effect that toasts a change of \<^verbatim>\<open>isCurrentAdmin\<close>; \<open>prevIsAdmin\<close> is the ref.\<close>

definition admin_toast_effect :: "page \<Rightarrow> page" where
  "admin_toast_effect s =
     (if prevIsAdmin s \<noteq> isCurrentAdmin s
      then (if \<not> (case activeMeeting s of None \<Rightarrow> False | Some m \<Rightarrow> s_isHost m)
            then showToast (if isCurrentAdmin s then granted_toast else removed_toast) s
            else s)
           \<lparr>prevIsAdmin := isCurrentAdmin s\<rparr>
      else s)"

text \<open>
  A widget command issued by the page. \<open>Inl\<close> is the exception the command throws; the
  command log keeps the commands that went through.
\<close>

definition executeCommand :: "jitsi_api \<Rightarrow> command \<Rightarrow> command list \<Rightarrow> thrown + command list" where
  "executeCommand api c log =
     (case command_throws api c of Some t \<Rightarrow> Inl t | None \<Rightarrow> Inr (log @ [c]))"

text \<open>\<^verbatim>\<open>try { jitsiApi.executeCommand(...) } catch (_) {}\<close>\<close>

definition try_command :: "jitsi_api \<Rightarrow> command \<Rightarrow> command list \<Rightarrow> command list" where
  "try_command api c log = (case executeCommand api c log of Inl t \<Rightarrow> log | Inr l \<Rightarrow> l)"

record role_event =
  e_id :: "string option"
  e_role :: "string option"

text \<open>Setting the override from a role carried by an event for this very participant.\<close>

definition apply_own_role :: "string option \<Rightarrow> page \<Rightarrow> page" where
  "apply_own_role r s =
     (if r = Some ''moderator''
      then (showToast granted_toast s)\<lparr>localAdminOverride := Some True\<rparr>
      else (showToast removed_toast s)\<lparr>localAdminOverride := Some False\<rparr>)"

definition is_me :: "jitsi_api \<Rightarrow> string option \<Rightarrow> bool" where
  "is_me api i = (str_truthy i \<and> str_truthy (myUserId api) \<and> i = myUserId api)"

text \<open>\<^verbatim>\<open>onRoleChanged\<close>, the listener of \<^verbatim>\<open>participantRoleChanged\<close>.\<close>

definition onRoleChanged :: "jitsi_api \<Rightarrow> role_event option \<Rightarrow> page \<Rightarrow> page" where
  "onRoleChanged api e s =
     (let s1 = s\<lparr>roleEventTick := roleEventTick s + 1\<rparr>;
          s2 = s1\<lparr>commands :=
                  try_command api
                    (SendEndpointTextMessage (case e of None \<Rightarrow> None | Some v \<Rightarrow> e_id v)
                                             (case e of None \<Rightarrow> None | Some v \<Rightarrow> e_role v))
                    (commands s1)\<rparr>
      in case e of
           None \<Rightarrow> s2
         | Some v \<Rightarrow> if is_me api (e_id v) then apply_own_role (e_role v) s2 else s2)"

text \<open>
  \<^verbatim>\<open>onEndpointMessage\<close>: the parsed payload of an endpoint text message, \<open>None\<close> when
  the text is not a string or does not parse.
\<close>

record endpoint_payload =
  m_type :: "string option"
  m_id :: "string option"
  m_role :: "string option"

definition onEndpointMessage :: "jitsi_api \<Rightarrow> endpoint_payload option \<Rightarrow> page \<Rightarrow> page" where
  "onEndpointMessage api payload s =
     (case payload of
        None \<Rightarrow> s
      | Some p \<Rightarrow>
          let s1 = (if m_type p = Some ''admin-granted''
                    then (showToast granted_toast s)\<lparr>roleEventTick := roleEventTick s + 1\<rparr>
                    else s);
              s2 = (if m_type p = Some ''admin-revoked''
                    then (showToast removed_toast s1)\<lparr>roleEventTick := roleEventTick s1 + 1\<rparr>
                    else s1)
          in if m_type p = Some ''role-broadcast''
             then (let s3 = s2\<lparr>roleEventTick := roleEventTick s2 + 1\<rparr>
                   in if is_me api (m_id p)
                      then (if m_role p = Some ''moderator''
                            then showToast granted_toast (s3\<lparr>localAdminOverride := Some True\<rparr>)
                            else showToast removed_toast (s3\<lparr>localAdminOverride := Some False\<rparr>))
                      else s3)
             else s2)"

text \<open>
  The subscription to changes of the meeting row. \<open>data\<close> is
  \<^verbatim>\<open>payload.new || payload.old || {}\<close>. The whiteboard is toggled inside the
  updater passed to \<^verbatim>\<open>setWhiteboardOpen\<close>, with no \<^verbatim>\<open>try\<close> around the widget
  command: \<open>Inl\<close> is the exception that then escapes from the update, and with it the
  page is gone.
\<close>

definition empty_row :: meeting_row where
  "empty_row = \<lparr>host_token = None, admin_ids = None, admin_display_names = None,
                banned_display_names = None, host_participant_id = None,
                whiteboard_open = False\<rparr>"

definition onMeetingRow :: "resolver_env \<Rightarrow> meeting_row \<Rightarrow> page \<Rightarrow> thrown + page" where
  "onMeetingRow env data s =
     (let s1 = (if str_truthy (host_participant_id data)
                then s\<lparr>hostParticipantId := host_participant_id data\<rparr> else s);
          admins = (case admin_ids data of None \<Rightarrow> [] | Some a \<Rightarrow> a);
          adminNames = (case admin_display_names data of
                          None \<Rightarrow> []
                        | Some ns \<Rightarrow> map (\<lambda>n. normalize (Some n)) ns);
          s2 = s1\<lparr>adminIds := admins, adminDisplayNames := adminNames,
                  roleEventTick := roleEventTick s1 + 1\<rparr>;
          myName = str_or (Some (str_or (map_option s_displayName (activeMeeting s)) (userName s)))
                     ''Guest''
      in if isBanned data myName
         then Inr (navigate (landing env)
                ((showToast (Toast ''Removed by host'' ''You cannot rejoin this meeting.'' ''error'')
                    s2)
                 \<lparr>activeMeeting := None, jitsiApi := None\<rparr>))
         else
           let isHostNow = (case activeMeeting s of None \<Rightarrow> False | Some m \<Rightarrow> s_isHost m);
               s3 = (if \<not> isHostNow \<and> str_truthy (host_participant_id data) \<and> \<not> canJoinMeeting s
                     then s2\<lparr>canJoinMeeting := True, isWaitingForHost := False,
                             isJitsiLoading := True\<rparr>
                     else s2)
           in if whiteboardOpen s3 \<noteq> whiteboard_open data
              then (case jitsiApi s of
                      None \<Rightarrow> Inr (s3\<lparr>whiteboardOpen := whiteboard_open data\<rparr>)
                    | Some api \<Rightarrow>
                        (case executeCommand api ToggleWhiteboard (commands s3) of
                           Inl t \<Rightarrow> Inl t
                         | Inr log \<Rightarrow>
                             Inr (s3\<lparr>commands := log, whiteboardOpen := whiteboard_open data\<rparr>)))
              else Inr (s3\<lparr>whiteboardOpen := whiteboard_open data\<rparr>))"

subsection \<open>Queued actions\<close>

record action_row =
  a_id :: string
  a_type :: string
  a_status :: string
  target_participant_id :: "string option"
  target_display_name_normalized :: "string option"
  platform :: "string option"
  stream_key :: "string option"
  rtmp_url :: "string option"
  a_error :: "string option"
  processed_at :: "string option"
  requested_by :: "string option"

text \<open>
  The watcher that every participant runs on inserted action rows. It is subscribed only
  while there is an active meeting and a widget instance.
\<close>

definition targeted :: "jitsi_api \<Rightarrow> session option \<Rightarrow> action_row \<Rightarrow> bool" where
  "targeted api am action =
     (let myId = myUserId api;
          myName = normalize (Some (str_or (map_option s_displayName am) []));
          targetedById = (str_truthy (target_participant_id action) \<and> str_truthy myId \<and>
                          target_participant_id action = myId);
          targetedByName = (str_truthy (target_display_name_normalized action) \<and> myName \<noteq> [] \<and>
                            target_display_name_normalized action = Some myName)
      in targetedById \<or> targetedByName)"

definition onActionInserted :: "resolver_env \<Rightarrow> jitsi_api \<Rightarrow> action_row option \<Rightarrow> page \<Rightarrow> page" where
  "onActionInserted env api action s =
     (case action of
        None \<Rightarrow> s
      | Some a \<Rightarrow>
          if a_type a = ''end-meeting''
          then navigate (landing env)
                 (s\<lparr>commands := try_command api Hangup (commands s),
                    activeMeeting := None, jitsiApi := None\<rparr>)
          else if \<not> str_truthy (myUserId api) \<and>
                  normalize (Some (str_or (map_option s_displayName (activeMeeting s)) [])) = []
          then s
          else if targeted api (activeMeeting s) a
          then
            (let s1 = (if a_type a = ''grant-moderator'' \<or> a_type a = ''notify-admin-granted''
                       then (showToast granted_toast s)
                              \<lparr>roleEventTick := roleEventTick s + 1,
                               localAdminOverride := Some True\<rparr>
                       else s)
             in if a_type a = ''revoke-moderator'' \<or> a_type a = ''notify-admin-revoked''
                then (showToast removed_toast s1)
                       \<lparr>roleEventTick := roleEventTick s1 + 1,
                        localAdminOverride := Some False\<rparr>
                else s1)
          else s)"

text \<open>
  One event of the page followed by the two effects. The listeners are registered on the
  widget instance, so an event reaches them only while the page holds one. \<open>Inl\<close> is an
  exception that no handler catches: the page is gone and no effect runs.
\<close>

datatype page_event =
    RoleChanged "role_event option"
  | EndpointMessage "endpoint_payload option"
  | MeetingRow meeting_row
  | ActionInserted "action_row option"
  | Poll

definition handle_event :: "resolver_env \<Rightarrow> page_event \<Rightarrow> page \<Rightarrow> thrown + page" where
  "handle_event env ev s =
     (case ev of
        MeetingRow data \<Rightarrow> (if activeMeeting s = None then Inr s else onMeetingRow env data s)
      | _ \<Rightarrow>
        (case jitsiApi s of
           None \<Rightarrow> Inr s
         | Some api \<Rightarrow>
             (case ev of
                RoleChanged e \<Rightarrow> Inr (onRoleChanged api e s)
              | EndpointMessage p \<Rightarrow> Inr (onEndpointMessage api p s)
              | ActionInserted a \<Rightarrow>
                  Inr (if activeMeeting s = None then s else onActionInserted env api a s)
              | Poll \<Rightarrow> Inr (s\<lparr>roleEventTick := roleEventTick s + 1\<rparr>)
              | MeetingRow data \<Rightarrow> Inr s)))"

definition deliver :: "resolver_env \<Rightarrow> page_event \<Rightarrow> page \<Rightarrow> thrown + page" where
  "deliver env ev s =
     (case handle_event env ev s of
        Inl t \<Rightarrow> Inl t
      | Inr s1 \<Rightarrow> Inr (admin_toast_effect (recompute_admin s1)))"

subsection \<open>Action Dispatcher (host side)\<close>

text \<open>
  The part of the hosted database the dispatcher touches: the row of the active meeting
  (\<open>None\<close> when no such row can be read) and the queued actions; and the log of the
  widget commands that went through.
\<close>

record host_world =
  w_meeting :: "meeting_row option"
  w_actions :: "action_row list"
  w_commands :: "command list"

text \<open>
  A JavaScript \<^verbatim>\<open>Set\<close> as the list of its elements in insertion order:
  \<^verbatim>\<open>new Set(array)\<close>, \<^verbatim>\<open>add\<close>, \<^verbatim>\<open>delete\<close>; \<^verbatim>\<open>Array.from\<close> is then the identity.
\<close>

definition set_add :: "'a list \<Rightarrow> 'a \<Rightarrow> 'a list" where
  "set_add xs x = (if x \<in> set xs then xs else xs @ [x])"

definition new_Set :: "'a list \<Rightarrow> 'a list" where
  "new_Set xs = foldl set_add [] xs"

definition set_delete :: "'a list \<Rightarrow> 'a \<Rightarrow> 'a list" where
  "set_delete xs x = removeAll x xs"

definition array_or_empty :: "'a list option \<Rightarrow> 'a list" where
  "array_or_empty v = (case v of None \<Rightarrow> [] | Some xs \<Rightarrow> xs)"

text \<open>
  Mirroring a grant or a revoke into the meeting row: read the two lists, change them as
  sets, write both back. With no readable row the update changes nothing.
\<close>

definition mirror_grant :: "action_row \<Rightarrow> string \<Rightarrow> meeting_row option \<Rightarrow> meeting_row option" where
  "mirror_grant action target row =
     (let ids = set_add (new_Set (array_or_empty (case row of None \<Rightarrow> None | Some r \<Rightarrow> admin_ids r)))
                  target;
          names0 = new_Set (array_or_empty
                     (case row of None \<Rightarrow> None | Some r \<Rightarrow> admin_display_names r));
          names = (if str_truthy (target_display_name_normalized action)
                   then set_add names0 (str_or (target_display_name_normalized action) [])
                   else names0)
      in map_option (\<lambda>r. r\<lparr>admin_ids := Some ids, admin_display_names := Some names\<rparr>) row)"

definition mirror_revoke :: "action_row \<Rightarrow> string \<Rightarrow> meeting_row option \<Rightarrow> meeting_row option" where
  "mirror_revoke action target row =
     (let ids = set_delete
                  (new_Set (array_or_empty (case row of None \<Rightarrow> None | Some r \<Rightarrow> admin_ids r)))
                  target;
          names0 = new_Set (array_or_empty
                     (case row of None \<Rightarrow> None | Some r \<Rightarrow> admin_display_names r));
          names = (if str_truthy (target_display_name_normalized action)
                   then set_delete names0 (str_or (target_display_name_normalized action) [])
                   else names0)
      in map_option (\<lambda>r. r\<lparr>admin_ids := Some ids, admin_display_names := Some names\<rparr>) row)"

definition exec :: "jitsi_api \<Rightarrow> command \<Rightarrow> host_world \<Rightarrow> thrown + host_world" where
  "exec api c w =
     (case executeCommand api c (w_commands w) of
        Inl t \<Rightarrow> Inl t
      | Inr l \<Rightarrow> Inr (w\<lparr>w_commands := l\<rparr>))"

definition try_exec :: "jitsi_api \<Rightarrow> command \<Rightarrow> host_world \<Rightarrow> host_world" where
  "try_exec api c w = w\<lparr>w_commands := try_command api c (w_commands w)\<rparr>"

text \<open>\<^verbatim>\<open>end-meeting\<close>: kick every listed participant but the host itself.\<close>

fun kick_others :: "jitsi_api \<Rightarrow> participant_info list \<Rightarrow> host_world \<Rightarrow> host_world" where
  "kick_others api [] w = w"
| "kick_others api (p # ps) w =
     kick_others api ps
       (if str_truthy (participantId p) \<and> participantId p \<noteq> myUserId api
        then try_exec api (KickParticipant (str_or (participantId p) [])) w
        else w)"

text \<open>
  The \<^verbatim>\<open>switch (action.type)\<close> of the host's handler. \<open>Inl\<close> is an exception that
  reaches the handler's outer \<^verbatim>\<open>catch\<close>; the commands wrapped in their own
  \<^verbatim>\<open>try { ... } catch (_) {}\<close> never produce one.
\<close>

definition run_action :: "jitsi_api \<Rightarrow> action_row \<Rightarrow> host_world \<Rightarrow> thrown + host_world" where
  "run_action api action w =
     (let t = a_type action;
          target = str_or (target_participant_id action) [];
          has_target = str_truthy (target_participant_id action)
      in if t = ''kick'' then (if has_target then exec api (KickParticipant target) w else Inr w)
         else if t = ''mute''
           then Inr (if has_target then try_exec api (MuteParticipant target) w else w)
         else if t = ''mute-everyone'' then Inr (try_exec api MuteEveryone w)
         else if t = ''grant-moderator''
           then Inr (if has_target
                     then (let w1 = try_exec api (GrantModerator target) w
                           in w1\<lparr>w_meeting := mirror_grant action target (w_meeting w1)\<rparr>)
                     else w)
         else if t = ''revoke-moderator''
           then Inr (if has_target
                     then (let w1 = try_exec api (RevokeModerator target) w
                           in w1\<lparr>w_meeting := mirror_revoke action target (w_meeting w1)\<rparr>)
                     else w)
         else if t = ''recording-start'' then exec api StartRecordingFile w
         else if t = ''recording-stop'' then exec api (StopRecording ''file'') w
         else if t = ''stream-start''
           then (if platform action = Some ''youtube'' \<and> str_truthy (stream_key action)
                 then exec api (StartRecordingYoutube (str_or (stream_key action) [])) w
                 else if str_truthy (stream_key action) \<and> str_truthy (rtmp_url action)
                 then exec api (StartRecordingRtmp (str_or (stream_key action) [])
                                  (str_or (rtmp_url action) [])) w
                 else Inr w)
         else if t = ''stream-stop'' then exec api (StopRecording ''stream'') w
         else if t = ''end-meeting''
           then Inr (try_exec api Hangup
                       (case getParticipantsInfo api of
                          Listed list \<Rightarrow> kick_others api list w
                        | _ \<Rightarrow> w))
         else Inr w)"

text \<open>\<^verbatim>\<open>String(err)\<close> for a thrown \<^verbatim>\<open>Error\<close> with the given name and message.\<close>

fun String_of :: "thrown \<Rightarrow> string" where
  "String_of (JsError name msg) =
     (if name = [] then msg else if msg = [] then name else name @ '': '' @ msg)"

text \<open>
  The write-back \<^verbatim>\<open>update({...}).eq('id', action.id)\<close>. An \<^verbatim>\<open>undefined\<close>
  participant id leaves \<^verbatim>\<open>requested_by\<close> as it is.
\<close>

definition write_back ::
  "string \<Rightarrow> string option \<Rightarrow> string \<Rightarrow> string option \<Rightarrow> string \<Rightarrow> action_row list \<Rightarrow> action_row list" where
  "write_back st err now me aid rows =
     map (\<lambda>r. if a_id r = aid
              then r\<lparr>a_status := st,
                     a_error := (case err of None \<Rightarrow> a_error r | Some e \<Rightarrow> Some e),
                     processed_at := Some now,
                     requested_by := (case me of None \<Rightarrow> requested_by r | Some u \<Rightarrow> Some u)\<rparr>
              else r) rows"

text \<open>
  The host's handler of an inserted action row; \<open>now\<close> is the clock reading
  \<^verbatim>\<open>new Date().toISOString()\<close>.
\<close>

definition onHostAction :: "jitsi_api \<Rightarrow> string \<Rightarrow> action_row option \<Rightarrow> host_world \<Rightarrow> host_world" where
  "onHostAction api now action w =
     (case action of
        None \<Rightarrow> w
      | Some a \<Rightarrow>
          if a_status a \<noteq> ''pending'' then w
          else (case run_action api a w of
                  Inr w1 \<Rightarrow>
                    w1\<lparr>w_actions := write_back ''done'' None now (myUserId api) (a_id a)
                                       (w_actions w1)\<rparr>
                | Inl t \<Rightarrow>
                    w\<lparr>w_actions := write_back ''error'' (Some (String_of t)) now (myUserId api)
                                      (a_id a) (w_actions w)\<rparr>))"

text \<open>
  The inserted rows handled one at a time, in the order the feed delivers them: the
  handler of a row has finished, its awaited select and update included, before the next
  row is delivered. The source does not enforce this. The handler is an \<^verbatim>\<open>async\<close>
  callback, and the feed can deliver the next row while an earlier handler is waiting.
\<close>

definition dispatch_all :: "jitsi_api \<Rightarrow> string \<Rightarrow> action_row list \<Rightarrow> host_world \<Rightarrow> host_world" where
  "dispatch_all api now actions w = foldl (\<lambda>v a. onHostAction api now (Some a) v) w actions"







subsection \<open>Notions used to state the properties\<close>




text \<open>A row that has been written back: done or error, with the processing timestamp.\<close>

definition settled :: "string \<Rightarrow> action_row \<Rightarrow> bool" where
  "settled now r = ((a_status r = ''done'' \<or> a_status r = ''error'') \<and> processed_at r = Some now)"

text \<open>The queued-action rows with a given id.\<close>

definition rows_with :: "string \<Rightarrow> host_world \<Rightarrow> action_row list" where
  "rows_with aid w = filter (\<lambda>r. a_id r = aid) (w_actions w)"

text \<open>
  The widget command that the handler issues outside any inner
  \<^verbatim>\<open>try { ... } catch (_) {}\<close>, if the row has one: only these can reach the outer
  \<^verbatim>\<open>catch\<close>.
\<close>

definition unguarded_command :: "action_row \<Rightarrow> command option" where
  "unguarded_command a =
     (let t = a_type a
      in if t = ''kick''
           then (if str_truthy (target_participant_id a)
                 then Some (KickParticipant (str_or (target_participant_id a) [])) else None)
         else if t = ''recording-start'' then Some StartRecordingFile
         else if t = ''recording-stop'' then Some (StopRecording ''file'')
         else if t = ''stream-start''
           then (if platform a = Some ''youtube'' \<and> str_truthy (stream_key a)
                 then Some (StartRecordingYoutube (str_or (stream_key a) []))
                 else if str_truthy (stream_key a) \<and> str_truthy (rtmp_url a)
                 then Some (StartRecordingRtmp (str_or (stream_key a) []) (str_or (rtmp_url a) []))
                 else None)
         else if t = ''stream-stop'' then Some (StopRecording ''stream'')
         else None)"

text \<open>
  A row written back with the given status, error text (when there is one), timestamp and
  processing participant (when the widget reports one).
\<close>

definition marked :: "string \<Rightarrow> string option \<Rightarrow> string \<Rightarrow> string option \<Rightarrow> action_row \<Rightarrow> bool" where
  "marked st err now me r =
     (a_status r = st \<and> (err = None \<or> a_error r = err) \<and> processed_at r = Some now \<and>
      (me = None \<or> requested_by r = me))"


text \<open>
  A queued action addressed to this viewer: by participant id, or by the normalized
  display name of the session descriptor.
\<close>

definition addressed :: "jitsi_api \<Rightarrow> string \<Rightarrow> action_row \<Rightarrow> bool" where
  "addressed api displayName a =
     ((case target_participant_id a of
         None \<Rightarrow> False
       | Some i \<Rightarrow> i \<noteq> [] \<and> myUserId api = Some i) \<or>
      (case target_display_name_normalized a of
         None \<Rightarrow> False
       | Some n \<Rightarrow> n \<noteq> [] \<and> n = normalize (Some displayName)))"

text \<open>
  A role-changed event or a role broadcast that carries this participant's own id
  (\<^verbatim>\<open>id && myId && id === myId\<close>).
\<close>

definition carries_own_id :: "jitsi_api \<Rightarrow> string option \<Rightarrow> bool" where
  "carries_own_id api i = (case i of None \<Rightarrow> False | Some v \<Rightarrow> v \<noteq> [] \<and> myUserId api = Some v)"

text \<open>A sequence of page events, delivered in order, as long as the page is there.\<close>

fun run_events :: "resolver_env \<Rightarrow> page_event list \<Rightarrow> page \<Rightarrow> thrown + page" where
  "run_events env [] s = Inr s"
| "run_events env (e # evs) s =
     (case deliver env e s of Inl t \<Rightarrow> Inl t | Inr s1 \<Rightarrow> run_events env evs s1)"

text \<open>The same event delivered \<open>n\<close> times in a row.\<close>

fun redeliver :: "resolver_env \<Rightarrow> page_event \<Rightarrow> nat \<Rightarrow> page \<Rightarrow> thrown + page" where
  "redeliver env ev 0 s = Inr s"
| "redeliver env ev (Suc n) s =
     (case deliver env ev s of Inl t \<Rightarrow> Inl t | Inr s1 \<Rightarrow> redeliver env ev n s1)"

text \<open>The computed moderator boolean of a page that is still there.\<close>

definition computed_admin :: "thrown + page \<Rightarrow> bool option" where
  "computed_admin r = (case r of Inl t \<Rightarrow> None | Inr s \<Rightarrow> Some (isCurrentAdmin s))"



text \<open>The inputs of the moderator computation that an event handler can change.\<close>

definition same_view :: "page \<Rightarrow> page \<Rightarrow> bool" where
  "same_view s t =
     (jitsiApi s = jitsiApi t \<and> activeMeeting s = activeMeeting t \<and> userName s = userName t \<and>
      adminIds s = adminIds t \<and> adminDisplayNames s = adminDisplayNames t \<and>
      localAdminOverride s = localAdminOverride t)"

text \<open>The same environment with another stored host token for the meeting.\<close>

definition with_host_token :: "resolver_env \<Rightarrow> string \<Rightarrow> string option \<Rightarrow> resolver_env" where
  "with_host_token env cid tok =
     env\<lparr>localStorage := (localStorage env)(''hostToken_'' @ cid := tok)\<rparr>"

subsection \<open>Sample meetings, viewers and queues\<close>

text \<open>A pending action row of a given type aimed at a participant id.\<close>

definition queued :: "string \<Rightarrow> string \<Rightarrow> string option \<Rightarrow> action_row" where
  "queued aid t target =
     \<lparr>a_id = aid, a_type = t, a_status = ''pending'', target_participant_id = target,
      target_display_name_normalized = None, platform = None, stream_key = None,
      rtmp_url = None, a_error = None, processed_at = None, requested_by = None\<rparr>"

text \<open>A widget whose commands all go through, and one whose commands all throw.\<close>

definition quiet_api :: jitsi_api where
  "quiet_api = \<lparr>myUserId = Some ''host-1'', getParticipantsInfo = Listed [],
                command_throws = (\<lambda>c. None)\<rparr>"

definition failing_api :: jitsi_api where
  "failing_api = \<lparr>myUserId = Some ''host-1'', getParticipantsInfo = Listed [],
                  command_throws = (\<lambda>c. Some (JsError ''Error'' ''not connected''))\<rparr>"


text \<open>A database whose queue holds one row.\<close>

definition sample_queue :: "action_row \<Rightarrow> host_world" where
  "sample_queue a = \<lparr>w_meeting = Some empty_row, w_actions = [a], w_commands = []\<rparr>"

text \<open>A viewer in a running meeting: the widget reports participant \<^verbatim>\<open>p7\<close> as moderator.\<close>

definition viewer_api :: jitsi_api where
  "viewer_api =
     \<lparr>myUserId = Some ''p7'',
      getParticipantsInfo =
        Listed [\<lparr>participantId = Some ''p7'', p_displayName = Some ''Ann Lee'',
                 formattedDisplayName = None, isModerator = True, p_role = Some ''moderator''\<rparr>],
      command_throws = (\<lambda>c. None)\<rparr>"

definition viewer_session :: "bool \<Rightarrow> session" where
  "viewer_session host =
     \<lparr>s_id = ''abc123'', s_displayName = ''Ann Lee'', s_isHost = host, s_row = empty_row\<rparr>"

definition viewer_page :: "bool \<Rightarrow> page" where
  "viewer_page host =
     initial_page\<lparr>activeMeeting := Some (viewer_session host), jitsiApi := Some viewer_api,
                  canJoinMeeting := True, isPageLoading := False\<rparr>"

text \<open>
  The same viewer while the widget reports it as a plain participant, and while the
  widget in addition throws on every command.
\<close>

definition plain_api :: jitsi_api where
  "plain_api =
     \<lparr>myUserId = Some ''p7'',
      getParticipantsInfo =
        Listed [\<lparr>participantId = Some ''p7'', p_displayName = Some ''Ann Lee'',
                 formattedDisplayName = None, isModerator = False,
                 p_role = Some ''participant''\<rparr>],
      command_throws = (\<lambda>c. None)\<rparr>"

definition plain_page :: "bool \<Rightarrow> page" where
  "plain_page host = (viewer_page host)\<lparr>jitsiApi := Some plain_api\<rparr>"

definition broken_page :: page where
  "broken_page =
     (viewer_page False)
       \<lparr>jitsiApi := Some (plain_api\<lparr>command_throws :=
                                         (\<lambda>c. Some (JsError ''Error'' ''not connected''))\<rparr>)\<rparr>"

text \<open>An environment with nothing in local storage.\<close>

definition plain_env :: resolver_env where
  "plain_env =
     \<lparr>meetingId = Some ''abc123'', pathname = ''/meeting/abc123'',
      localStorage = (\<lambda>k. None), settledJoinAsGuest = False, settledSession = None,
      fetchMeeting = (\<lambda>i. None), createAdminJwt = JwtTimeout\<rparr>"

text \<open>
  Role-changed events for this viewer's own participant id, and a meeting row that lists
  the viewer as moderator.
\<close>

definition promote_me :: page_event where
  "promote_me = RoleChanged (Some \<lparr>e_id = Some ''p7'', e_role = Some ''moderator''\<rparr>)"


definition admins_row :: meeting_row where
  "admins_row = empty_row\<lparr>admin_ids := Some [''p7''], admin_display_names := Some [''Ann Lee'']\<rparr>"


text \<open>A meeting row with host token \<^verbatim>\<open>T1\<close> and one banned display name.\<close>

definition sample_row :: meeting_row where
  "sample_row =
     \<lparr>host_token = Some ''T1'', admin_ids = None, admin_display_names = None,
      banned_display_names = Some [Some ''john smith''], host_participant_id = None,
      whiteboard_open = False\<rparr>"

text \<open>
  A guest entering \<^verbatim>\<open>/meeting/abc123\<close> under a stored display name, with or without
  a stored host token.
\<close>

definition viewer_env :: "string \<Rightarrow> string option \<Rightarrow> resolver_env" where
  "viewer_env name tok =
     \<lparr>meetingId = Some ''abc123'', pathname = ''/meeting/abc123'',
      localStorage = [''joinAsGuest'' \<mapsto> ''true'', ''userName'' \<mapsto> name]
                       (''hostToken_abc123'' := tok),
      settledJoinAsGuest = True, settledSession = None,
      fetchMeeting = (\<lambda>i. if i = ''abc123'' then Some sample_row else None),
      createAdminJwt = JwtResolved ''jwt-1''\<rparr>"

text \<open>
  A signed-in host entering \<^verbatim>\<open>/meeting/abc123\<close>: the stored host token equals the
  row's, and the credential request ends as given.
\<close>

definition host_env :: "jwt_outcome \<Rightarrow> resolver_env" where
  "host_env jwt =
     \<lparr>meetingId = Some ''abc123'', pathname = ''/meeting/abc123'',
      localStorage = [''hostToken_abc123'' \<mapsto> ''T1''],
      settledJoinAsGuest = False, settledSession = None,
      fetchMeeting = (\<lambda>i. if i = ''abc123'' then Some sample_row else None),
      createAdminJwt = jwt\<rparr>"

definition signed_in_page :: page where
  "signed_in_page =
     initial_page\<lparr>currentUser := Some \<lparr>u_email = Some ''ann@example.com'',
                                         full_name = Some ''Ann Lee''\<rparr>,
                   userName := ''Ann Lee''\<rparr>"

section \<open>Properties of the admin REST front door\<close>

lemma sendSuccess_keys: "keys (body (sendSuccess d c)) = [''success'', ''data'', ''error'']"
  by (simp add: sendSuccess_def keys_def)

lemma sendError_keys: "keys (body (sendError m c d)) = [''success'', ''data'', ''error'']"
  by (simp add: sendError_def keys_def)

lemma success_sendError [simp]: "success_of (sendError m c d) = Some (JBool False)"
  by (simp add: success_of_def sendError_def field_def)

lemma success_sendSuccess [simp]: "success_of (sendSuccess d c) = Some (JBool True)"
  by (simp add: success_of_def sendSuccess_def field_def)

lemma status_sendError [simp]: "status (sendError m c d) = c"
  by (simp add: sendError_def)

lemma status_sendSuccess [simp]: "status (sendSuccess d c) = c"
  by (simp add: sendSuccess_def)

lemma data_sendSuccess [simp]: "data_of (sendSuccess d c) = Some d"
  by (simp add: data_of_def sendSuccess_def field_def)

lemma insertPayload_fields:
  "field (insertPayload uid e fn ln) ''uid'' = Some uid"
  "field (insertPayload uid e fn ln) ''role'' = Some (JStr ''user'')"
  "field (insertPayload uid e fn ln) ''is_active'' = Some (JBool True)"
  by (simp_all add: insertPayload_def field_def)

lemma post_users_insert_success:
  assumes "success_of (fst (post_users_insert be attrs u uid payload)) = Some (JBool True)"
  shows "\<exists>profile. insertProfile be payload = Returned profile \<and>
           post_users_insert be attrs u uid payload =
             (sendSuccess (JObj [(''authUser'', u), (''profile'', profile)]) 201,
              [CreateUser attrs, InsertProfile payload])"
  using assms by (auto simp: post_users_insert_def split: outcome.splits)

lemma post_users_create_success:
  assumes ok: "success_of (fst (post_users_create be e p fn ln)) = Some (JBool True)"
  shows "\<exists>u uid profile.
           createUser be (createUserAttrs e p fn ln) = Returned (Some u) \<and>
           field u ''id'' = Some uid \<and> truthy uid \<and>
           insertProfile be (insertPayload uid e fn ln) = Returned profile \<and>
           post_users_create be e p fn ln =
             (sendSuccess (JObj [(''authUser'', u), (''profile'', profile)]) 201,
              [CreateUser (createUserAttrs e p fn ln),
               InsertProfile (insertPayload uid e fn ln)])"
proof (cases "createUser be (createUserAttrs e p fn ln)")
  case (Returned r)
  show ?thesis
  proof (cases r)
    case None
    with Returned ok show ?thesis
      by (simp add: post_users_create_def Let_def)
  next
    case (Some u)
    show ?thesis
    proof (cases "field u ''id''")
      case None
      with Returned Some ok show ?thesis
        by (simp add: post_users_create_def Let_def)
    next
      case (Some uid)
      note uid = this
      show ?thesis
      proof (cases "truthy uid")
        case False
        with Returned \<open>r = Some u\<close> uid ok show ?thesis
          by (simp add: post_users_create_def Let_def)
      next
        case True
        have run: "post_users_create be e p fn ln =
                     post_users_insert be (createUserAttrs e p fn ln) u uid
                       (insertPayload uid e fn ln)"
          using Returned \<open>r = Some u\<close> uid True
          by (simp add: post_users_create_def Let_def)
        from post_users_insert_success [of be "createUserAttrs e p fn ln" u uid
            "insertPayload uid e fn ln"] ok run
        obtain profile where
          "insertProfile be (insertPayload uid e fn ln) = Returned profile"
          "post_users_insert be (createUserAttrs e p fn ln) u uid (insertPayload uid e fn ln) =
             (sendSuccess (JObj [(''authUser'', u), (''profile'', profile)]) 201,
              [CreateUser (createUserAttrs e p fn ln),
               InsertProfile (insertPayload uid e fn ln)])"
          by auto
        with Returned \<open>r = Some u\<close> uid True run show ?thesis
          by simp
      qed
    qed
  qed
next
  case (Failed m)
  with ok show ?thesis
    by (simp add: post_users_create_def Let_def)
next
  case (Rejected m)
  with ok show ?thesis
    by (simp add: post_users_create_def Let_def)
qed

text \<open>
  C10. Whenever \<^verbatim>\<open>POST /users\<close> answers with \<^verbatim>\<open>success: true\<close>, the status is 201,
  the response data holds the auth user and the profile row the insert returned, and the
  row handed to the insert has the auth user's id as \<^verbatim>\<open>uid\<close>, the role
  \<^verbatim>\<open>'user'\<close> and \<^verbatim>\<open>is_active: true\<close>, whatever the request body contains.
\<close>

theorem post_users_success_profile:
  assumes "success_of (fst (post_users be rb)) = Some (JBool True)"
  shows "\<exists>e p u uid profile row.
           row = insertPayload uid e (field (js_or rb (JObj [])) ''first_name'')
                   (field (js_or rb (JObj [])) ''last_name'') \<and>
           field (js_or rb (JObj [])) ''email'' = Some e \<and>
           field u ''id'' = Some uid \<and>
           insertProfile be row = Returned profile \<and>
           status (fst (post_users be rb)) = 201 \<and>
           data_of (fst (post_users be rb)) =
             Some (JObj [(''authUser'', u), (''profile'', profile)]) \<and>
           snd (post_users be rb) =
             [CreateUser (createUserAttrs e p (field (js_or rb (JObj [])) ''first_name'')
                            (field (js_or rb (JObj [])) ''last_name'')),
              InsertProfile row] \<and>
           field row ''uid'' = Some uid \<and>
           field row ''role'' = Some (JStr ''user'') \<and>
           field row ''is_active'' = Some (JBool True)"
proof -
  define fn where "fn = field (js_or rb (JObj [])) ''first_name''"
  define ln where "ln = field (js_or rb (JObj [])) ''last_name''"
  have not_required:
    "success_of (fst (sendError ''email and password are required'' 400 None,
                      [] :: backend_call list)) \<noteq> Some (JBool True)"
    by simp
  obtain e where e: "field (js_or rb (JObj [])) ''email'' = Some e"
    using assms not_required
    by (cases "field (js_or rb (JObj [])) ''email''") (simp_all add: post_users_def Let_def)
  obtain p where p: "field (js_or rb (JObj [])) ''password'' = Some p"
    using assms not_required e
    by (cases "field (js_or rb (JObj [])) ''password''") (simp_all add: post_users_def Let_def)
  have tr: "truthy e \<and> truthy p"
    using assms not_required e p
    by (cases "truthy e \<and> truthy p") (simp_all add: post_users_def Let_def)
  have run: "post_users be rb = post_users_create be e p fn ln"
    using e p tr by (simp add: post_users_def Let_def fn_def ln_def)
  have "success_of (fst (post_users_create be e p fn ln)) = Some (JBool True)"
    using assms run by simp
  from post_users_create_success [OF this]
  obtain u uid profile where
    u: "field u ''id'' = Some uid"
    and ins: "insertProfile be (insertPayload uid e fn ln) = Returned profile"
    and res: "post_users_create be e p fn ln =
       (sendSuccess (JObj [(''authUser'', u), (''profile'', profile)]) 201,
        [CreateUser (createUserAttrs e p fn ln), InsertProfile (insertPayload uid e fn ln)])"
    by blast
  have r1: "status (fst (post_users be rb)) = 201"
    and r2: "data_of (fst (post_users be rb)) =
               Some (JObj [(''authUser'', u), (''profile'', profile)])"
    and r3: "snd (post_users be rb) =
               [CreateUser (createUserAttrs e p fn ln), InsertProfile (insertPayload uid e fn ln)]"
    unfolding run res by simp_all
  show ?thesis
    unfolding fn_def [symmetric] ln_def [symmetric]
    using e u ins r1 r2 r3 insertPayload_fields [of uid e fn ln]
    by blast
qed

theorem post_users_success_profile_witness:
  "success_of (fst (post_users (sample_backend True True) (Some sample_body))) = Some (JBool True) \<and>
   snd (post_users (sample_backend True True) (Some sample_body)) =
     [CreateUser (JObj [(''email'', JStr ''jane@example.com''), (''password'', JStr ''pw''),
                        (''email_confirm'', JBool True),
                        (''user_metadata'', JObj [(''first_name'', JStr ''Jane''), (''last_name'', JNull)])]),
      InsertProfile (JObj [(''uid'', JStr ''u-17''), (''email'', JStr ''jane@example.com''),
                           (''first_name'', JStr ''Jane''), (''last_name'', JNull),
                           (''role'', JStr ''user''), (''is_active'', JBool True)])]"
  using post_users_success_profile [of "sample_backend True True" "Some sample_body"]
  by (simp add: post_users_def post_users_create_def post_users_insert_def sample_backend_def
        sample_body_def js_or_def field_def createUserAttrs_def insertPayload_def Let_def)

lemma post_users_valid:
  assumes "field (js_or rb (JObj [])) ''email'' = Some e" and "truthy e"
    and "field (js_or rb (JObj [])) ''password'' = Some p" and "truthy p"
  shows "post_users be rb =
           post_users_create be e p (field (js_or rb (JObj [])) ''first_name'')
             (field (js_or rb (JObj [])) ''last_name'')"
  using assms by (simp add: post_users_def Let_def)

text \<open>
  C9. For a request with a truthy email and password: when the auth user is created
  (with an id) and the insert of the profile row returns an error, the handler calls
  \<^verbatim>\<open>deleteUser\<close> for the new auth user's id, whatever that call gives, and answers 500
  with \<^verbatim>\<open>success: false\<close>; when \<^verbatim>\<open>createUser\<close> itself returns an error, the handler
  answers 400 and \<^verbatim>\<open>createUser\<close> is the only backend call, so no insert is attempted.
\<close>

theorem post_users_compensation:
  assumes "field (js_or rb (JObj [])) ''email'' = Some e" and "truthy e"
    and "field (js_or rb (JObj [])) ''password'' = Some p" and "truthy p"
    and "fn = field (js_or rb (JObj [])) ''first_name''"
    and "ln = field (js_or rb (JObj [])) ''last_name''"
  shows "(createUser be (createUserAttrs e p fn ln) = Returned (Some u) \<and>
          field u ''id'' = Some uid \<and> truthy uid \<and>
          insertProfile be (insertPayload uid e fn ln) = Failed m
          \<longrightarrow> status (fst (post_users be rb)) = 500 \<and>
              success_of (fst (post_users be rb)) = Some (JBool False) \<and>
              snd (post_users be rb) =
                [CreateUser (createUserAttrs e p fn ln),
                 InsertProfile (insertPayload uid e fn ln), DeleteUser uid]) \<and>
         (createUser be (createUserAttrs e p fn ln) = Failed m
          \<longrightarrow> status (fst (post_users be rb)) = 400 \<and>
              success_of (fst (post_users be rb)) = Some (JBool False) \<and>
              snd (post_users be rb) = [CreateUser (createUserAttrs e p fn ln)])"
proof -
  have start: "post_users be rb = post_users_create be e p fn ln"
    using assms by (simp add: post_users_valid)
  show ?thesis
    unfolding start
    by (auto simp: post_users_create_def post_users_insert_def Let_def
             split: outcome.splits)
qed

lemma sample_email: "field (js_or (Some sample_body) (JObj [])) ''email'' = Some (JStr ''jane@example.com'')"
  by (simp add: sample_body_def js_or_def field_def)

lemma sample_password: "field (js_or (Some sample_body) (JObj [])) ''password'' = Some (JStr ''pw'')"
  by (simp add: sample_body_def js_or_def field_def)

lemma sample_first: "Some (JStr ''Jane'') = field (js_or (Some sample_body) (JObj [])) ''first_name''"
  by (simp add: sample_body_def js_or_def field_def)

lemma sample_last: "None = field (js_or (Some sample_body) (JObj [])) ''last_name''"
  by (simp add: sample_body_def js_or_def field_def)

theorem post_users_compensation_witness:
  "(status (fst (post_users (sample_backend True False) (Some sample_body))) = 500 \<and>
    success_of (fst (post_users (sample_backend True False) (Some sample_body))) =
      Some (JBool False) \<and>
    snd (post_users (sample_backend True False) (Some sample_body)) =
      [CreateUser (createUserAttrs (JStr ''jane@example.com'') (JStr ''pw'')
                     (Some (JStr ''Jane'')) None),
       InsertProfile (insertPayload (JStr ''u-17'') (JStr ''jane@example.com'')
                     (Some (JStr ''Jane'')) None),
       DeleteUser (JStr ''u-17'')]) \<and>
   (status (fst (post_users (sample_backend False True) (Some sample_body))) = 400 \<and>
    snd (post_users (sample_backend False True) (Some sample_body)) =
      [CreateUser (createUserAttrs (JStr ''jane@example.com'') (JStr ''pw'')
                     (Some (JStr ''Jane'')) None)])"
proof -
  have t1: "truthy (JStr ''jane@example.com'')" and t2: "truthy (JStr ''pw'')" by simp_all
  have c1: "createUser (sample_backend True False)
              (createUserAttrs (JStr ''jane@example.com'') (JStr ''pw'') (Some (JStr ''Jane'')) None) =
            Returned (Some (JObj [(''id'', JStr ''u-17''), (''email'', JStr ''jane@example.com'')]))"
    by (simp add: sample_backend_def createUserAttrs_def field_def js_or_def)
  have i1: "field (JObj [(''id'', JStr ''u-17''), (''email'', JStr ''jane@example.com'')]) ''id'' =
            Some (JStr ''u-17'')"
    by (simp add: field_def)
  have f1: "insertProfile (sample_backend True False)
              (insertPayload (JStr ''u-17'') (JStr ''jane@example.com'') (Some (JStr ''Jane'')) None) =
            Failed ''duplicate key value violates unique constraint''"
    by (simp add: sample_backend_def)
  have c2: "createUser (sample_backend False True)
              (createUserAttrs (JStr ''jane@example.com'') (JStr ''pw'') (Some (JStr ''Jane'')) None) =
            Failed ''User already registered''"
    by (simp add: sample_backend_def)
  note a = post_users_compensation [OF sample_email t1 sample_password t2 sample_first sample_last,
      of "sample_backend True False" _ "JStr ''u-17''" "''duplicate key value violates unique constraint''"]
  note b = post_users_compensation [OF sample_email t1 sample_password t2 sample_first sample_last,
      of "sample_backend False True" _ _ "''User already registered''"]
  have t3: "truthy (JStr ''u-17'')" by simp
  note A = a [THEN conjunct1, rule_format, OF conjI [OF c1 conjI [OF i1 conjI [OF t3 f1]]]]
  note B = b [THEN conjunct2, rule_format, OF c2]
  show ?thesis
    apply (rule conjI)
     apply (rule A)
    apply (rule conjI)
     apply (rule B [THEN conjunct1])
    apply (rule B [THEN conjunct2, THEN conjunct2])
    done
qed

lemma listing_total_not_counted:
  assumes "status (listing db tbl cols flt page limit) = 200"
  shows "\<exists>p. pagination_of (listing db tbl cols flt page limit) = Some p \<and>
             keys p = [''page'', ''limit'', ''total'', ''totalPages''] \<and>
             field p ''total'' = Some JNull"
  using assms
  by (auto simp: listing_def run_select_def Let_def pagination_of_def pagination_def
        keys_def field_def data_of_def sendSuccess_def sendError_def
      split: outcome.splits option.splits table.splits if_splits prod.splits)

text \<open>
  C8. \<^verbatim>\<open>GET /users\<close> with \<^verbatim>\<open>page=1\<close> and \<^verbatim>\<open>limit=10\<close> on a users table of three
  rows: the pagination object has the four keys, but \<^verbatim>\<open>total\<close> is \<^verbatim>\<open>null\<close> and
  \<^verbatim>\<open>totalPages\<close> is 0, since the listing's select never asks for a count.
\<close>

theorem get_users_reports_no_total:
  "pagination_of (get_users sample_db (Digits 1) (Digits 10) None) =
     Some (JObj [(''page'', JNum (Fin 1)), (''limit'', JNum (Fin 10)),
                 (''total'', JNull), (''totalPages'', JNum (Fin 0))]) \<and>
   (\<exists>rows. sample_db ''users'' = Rows rows \<and> length rows = 3)"
  by (simp add: get_users_def listing_def run_select_def sample_db_def qnum_def js_plus_def
        pagination_def ceil_div_def sendSuccess_def project_def pagination_of_def data_of_def
        field_def Let_def)

section \<open>Properties of the meeting page\<close>

lemma foldl_set_add_set: "set (foldl set_add acc xs) = set acc \<union> set xs"
  by (induction xs arbitrary: acc) (auto simp: set_add_def)

lemma foldl_set_add_distinct: "distinct acc \<Longrightarrow> distinct (foldl set_add acc xs)"
  by (induction xs arbitrary: acc) (auto simp: set_add_def)


lemma set_new_Set [simp]: "set (new_Set xs) = set xs"
  by (simp add: new_Set_def foldl_set_add_set)

lemma distinct_new_Set [simp]: "distinct (new_Set xs)"
  by (simp add: new_Set_def foldl_set_add_distinct)



lemma set_set_add [simp]: "set (set_add xs x) = insert x (set xs)"
  by (auto simp: set_add_def)

lemma set_set_delete [simp]: "set (set_delete xs x) = set xs - {x}"
  by (simp add: set_delete_def)





lemma dispatch_all_snoc:
  "dispatch_all api now (acts @ [a]) w = onHostAction api now (Some a) (dispatch_all api now acts w)"
  by (simp add: dispatch_all_def)




lemma queued_fields [simp]:
  "a_status (queued i t x) = ''pending''" "a_type (queued i t x) = t"
  "target_participant_id (queued i t x) = x" "a_id (queued i t x) = i"
  "target_display_name_normalized (queued i t x) = None"
  "platform (queued i t x) = None" "stream_key (queued i t x) = None"
  "rtmp_url (queued i t x) = None"
  by (simp_all add: queued_def)







lemma kick_others_actions [simp]: "w_actions (kick_others api ps w) = w_actions w"
  by (induction ps arbitrary: w) (simp_all add: try_exec_def)

lemma exec_actions:
  "(case exec api c w of Inl t \<Rightarrow> True | Inr w1 \<Rightarrow> w_actions w1 = w_actions w)"
  by (simp add: exec_def executeCommand_def split: option.splits)

lemma try_exec_actions [simp]: "w_actions (try_exec api c w) = w_actions w"
  by (simp add: try_exec_def)

lemma run_action_actions_case:
  "(case run_action api a w of Inl t \<Rightarrow> True | Inr w1 \<Rightarrow> w_actions w1 = w_actions w)"
  by (simp add: run_action_def Let_def exec_actions split: participants_view.splits)

lemma run_action_actions: "run_action api a w = Inr w1 \<Longrightarrow> w_actions w1 = w_actions w"
  using run_action_actions_case [where api = api and a = a and w = w] by simp

lemma onHostAction_table:
  assumes "a_status a = ''pending''"
  shows "w_actions (onHostAction api now (Some a) w) =
           (case run_action api a w of
              Inr w1 \<Rightarrow> write_back ''done'' None now (myUserId api) (a_id a) (w_actions w)
            | Inl t \<Rightarrow> write_back ''error'' (Some (String_of t)) now (myUserId api) (a_id a)
                         (w_actions w))"
  using assms
  by (auto simp: onHostAction_def split: sum.splits dest: run_action_actions)

lemma write_back_settles:
  "st = ''done'' \<or> st = ''error'' \<Longrightarrow>
   list_all (\<lambda>r. a_id r = aid \<longrightarrow> settled now r) (write_back st err now me aid rows)"
  by (induction rows) (auto simp: write_back_def settled_def)

lemma write_back_keeps:
  "st = ''done'' \<or> st = ''error'' \<Longrightarrow>
   list_all (\<lambda>r. a_id r = i \<longrightarrow> settled now r) rows \<Longrightarrow>
   list_all (\<lambda>r. a_id r = i \<longrightarrow> settled now r) (write_back st err now me aid rows)"
  by (induction rows) (auto simp: write_back_def settled_def)

lemma onHostAction_settles:
  assumes "a_status a = ''pending''"
  shows "list_all (\<lambda>r. a_id r = a_id a \<longrightarrow> settled now r)
           (w_actions (onHostAction api now (Some a) w))"
  unfolding onHostAction_table [OF assms]
  by (cases "run_action api a w") (simp_all add: write_back_settles)

lemma onHostAction_keeps:
  assumes "list_all (\<lambda>r. a_id r = i \<longrightarrow> settled now r) (w_actions w)"
  shows "list_all (\<lambda>r. a_id r = i \<longrightarrow> settled now r)
           (w_actions (onHostAction api now (Some a) w))"
proof (cases "a_status a = ''pending''")
  case True
  show ?thesis
    unfolding onHostAction_table [OF True]
    using assms by (cases "run_action api a w") (simp_all add: write_back_keeps)
next
  case False
  with assms show ?thesis by (simp add: onHostAction_def)
qed

lemma dispatch_all_settles:
  "list_all (\<lambda>a. a_status a = ''pending'' \<longrightarrow>
               list_all (\<lambda>r. a_id r = a_id a \<longrightarrow> settled now r)
                 (w_actions (dispatch_all api now acts w))) acts"
proof (induction acts rule: rev_induct)
  case Nil
  show ?case by simp
next
  case (snoc a acts)
  have old: "a_status b = ''pending'' \<longrightarrow>
               list_all (\<lambda>r. a_id r = a_id b \<longrightarrow> settled now r)
                 (w_actions (dispatch_all api now (acts @ [a]) w))"
    if "b \<in> set acts" for b
  proof
    assume "a_status b = ''pending''"
    with snoc.IH that
    have "list_all (\<lambda>r. a_id r = a_id b \<longrightarrow> settled now r)
            (w_actions (dispatch_all api now acts w))"
      unfolding list_all_iff by blast
    from onHostAction_keeps [OF this]
    show "list_all (\<lambda>r. a_id r = a_id b \<longrightarrow> settled now r)
            (w_actions (dispatch_all api now (acts @ [a]) w))"
      unfolding dispatch_all_snoc .
  qed
  have new: "a_status a = ''pending'' \<longrightarrow>
               list_all (\<lambda>r. a_id r = a_id a \<longrightarrow> settled now r)
                 (w_actions (dispatch_all api now (acts @ [a]) w))"
    unfolding dispatch_all_snoc using onHostAction_settles by blast
  show ?case
    unfolding list_all_append
    using old new by (simp add: list_all_iff)
qed

lemma run_action_unguarded:
  "unguarded_command a = Some c \<Longrightarrow> run_action api a w = exec api c w"
  by (simp add: unguarded_command_def run_action_def Let_def split: if_splits)

lemma run_action_guarded:
  "unguarded_command a = None \<Longrightarrow> \<exists>w1. run_action api a w = Inr w1"
  by (auto simp: unguarded_command_def run_action_def Let_def split: if_splits)

lemma write_back_marks:
  "list_all (marked st err now me) (filter (\<lambda>r. a_id r = aid) (write_back st err now me aid rows))"
  by (induction rows) (auto simp: write_back_def marked_def split: option.splits)

lemma write_back_same_rows:
  "map a_id (write_back st err now me aid rows) = map a_id rows"
  by (simp add: write_back_def)

lemma String_of_nonempty: "String_of t \<noteq> [] \<longleftrightarrow> t \<noteq> JsError [] []"
  by (cases t) auto

lemma onHostAction_error:
  assumes "a_status a = ''pending''" and "unguarded_command a = Some c"
    and "command_throws api c = Some t"
  shows "onHostAction api now (Some a) w =
           w\<lparr>w_actions := write_back ''error'' (Some (String_of t)) now (myUserId api) (a_id a)
                             (w_actions w)\<rparr>"
  using assms
  by (simp add: onHostAction_def run_action_unguarded exec_def executeCommand_def)

lemma onHostAction_done_unguarded:
  assumes "a_status a = ''pending''" and "unguarded_command a = Some c"
    and "command_throws api c = None"
  shows "onHostAction api now (Some a) w =
           w\<lparr>w_commands := w_commands w @ [c],
             w_actions := write_back ''done'' None now (myUserId api) (a_id a) (w_actions w)\<rparr>"
  using assms
  by (simp add: onHostAction_def run_action_unguarded exec_def executeCommand_def)

lemma onHostAction_done_guarded:
  assumes "a_status a = ''pending''" and "unguarded_command a = None"
  shows "w_actions (onHostAction api now (Some a) w) =
           write_back ''done'' None now (myUserId api) (a_id a) (w_actions w)"
proof -
  from run_action_guarded [OF assms(2)] obtain w1 where r: "run_action api a w = Inr w1"
    by blast
  with assms(1) run_action_actions [OF r] show ?thesis
    by (simp add: onHostAction_def)
qed

text \<open>
  C5 (as amended). For a pending row: when the row's command is one the handler issues
  outside an inner \<^verbatim>\<open>try\<close> (kick with a target, recording start and stop, stream start
  with its parameters, stream stop) and that command throws, every row with that id is
  written back as \<^verbatim>\<open>error\<close> with \<^verbatim>\<open>String(err)\<close> (non-empty unless the error has
  neither name nor message), the timestamp and the host's participant id; when that
  command goes through, the rows are written back as \<^verbatim>\<open>done\<close> and the command has
  been issued; for every other row (mute, mute-everyone, grant-moderator,
  revoke-moderator, end-meeting, and rows that issue nothing) the rows are written back as
  \<^verbatim>\<open>done\<close> whatever the widget throws. The write-back keeps the rows of the queue,
  and after a sequence of inserted rows every pending one of them is settled, whichever
  of them threw.
\<close>

theorem dispatcher_write_back:
  assumes "a_status a = ''pending''"
  shows "(unguarded_command a = Some c \<and> command_throws api c = Some t \<longrightarrow>
            list_all (marked ''error'' (Some (String_of t)) now (myUserId api))
              (rows_with (a_id a) (onHostAction api now (Some a) w)) \<and>
            (String_of t \<noteq> [] \<longleftrightarrow> t \<noteq> JsError [] [])) \<and>
         (unguarded_command a = Some c \<and> command_throws api c = None \<longrightarrow>
            list_all (marked ''done'' None now (myUserId api))
              (rows_with (a_id a) (onHostAction api now (Some a) w)) \<and>
            w_commands (onHostAction api now (Some a) w) = w_commands w @ [c]) \<and>
         (unguarded_command a = None \<longrightarrow>
            list_all (marked ''done'' None now (myUserId api))
              (rows_with (a_id a) (onHostAction api now (Some a) w))) \<and>
         map a_id (w_actions (onHostAction api now (Some a) w)) = map a_id (w_actions w) \<and>
         list_all (\<lambda>b. a_status b = ''pending'' \<longrightarrow>
                    list_all (settled now) (rows_with (a_id b) (dispatch_all api now acts w)))
           acts"
proof -
  have e: "unguarded_command a = Some c \<and> command_throws api c = Some t \<longrightarrow>
            list_all (marked ''error'' (Some (String_of t)) now (myUserId api))
              (rows_with (a_id a) (onHostAction api now (Some a) w)) \<and>
            (String_of t \<noteq> [] \<longleftrightarrow> t \<noteq> JsError [] [])"
    using onHostAction_error [OF assms, of c api t now w]
    by (simp add: rows_with_def write_back_marks String_of_nonempty)
  have d1: "unguarded_command a = Some c \<and> command_throws api c = None \<longrightarrow>
            list_all (marked ''done'' None now (myUserId api))
              (rows_with (a_id a) (onHostAction api now (Some a) w)) \<and>
            w_commands (onHostAction api now (Some a) w) = w_commands w @ [c]"
    using onHostAction_done_unguarded [OF assms, of c api now w]
    by (simp add: rows_with_def write_back_marks)
  have d2: "unguarded_command a = None \<longrightarrow>
            list_all (marked ''done'' None now (myUserId api))
              (rows_with (a_id a) (onHostAction api now (Some a) w))"
    using onHostAction_done_guarded [OF assms, of api now w]
    by (simp add: rows_with_def write_back_marks)
  have ids: "map a_id (w_actions (onHostAction api now (Some a) w)) = map a_id (w_actions w)"
    unfolding onHostAction_table [OF assms]
    by (cases "run_action api a w") (simp_all add: write_back_same_rows)
  have all: "list_all (\<lambda>b. a_status b = ''pending'' \<longrightarrow>
                    list_all (settled now) (rows_with (a_id b) (dispatch_all api now acts w)))
               acts"
    using dispatch_all_settles [of now api acts w]
    by (simp add: rows_with_def list_all_iff)
  from e d1 d2 ids all show ?thesis by blast
qed

text \<open>
  C5 as stated fails for the commands wrapped in their own \<^verbatim>\<open>try\<close>: a pending
  \<^verbatim>\<open>mute\<close> row whose widget command throws is written back as \<^verbatim>\<open>done\<close>, with no
  error text.
\<close>

theorem swallowed_mute_is_done:
  "unguarded_command (queued ''a1'' ''mute'' (Some ''p42'')) = None \<and>
   command_throws failing_api (MuteParticipant ''p42'') = Some (JsError ''Error'' ''not connected'') \<and>
   map a_status
     (w_actions (onHostAction failing_api ''12:00:01'' (Some (queued ''a1'' ''mute'' (Some ''p42'')))
                   (sample_queue (queued ''a1'' ''mute'' (Some ''p42''))))) = [''done''] \<and>
   map a_error
     (w_actions (onHostAction failing_api ''12:00:01'' (Some (queued ''a1'' ''mute'' (Some ''p42'')))
                   (sample_queue (queued ''a1'' ''mute'' (Some ''p42''))))) = [None]"
  by (simp add: onHostAction_def run_action_def try_exec_def try_command_def executeCommand_def
        failing_api_def sample_queue_def write_back_def str_truthy_def str_or_def Let_def
        unguarded_command_def queued_def)

lemma kick_unguarded:
  "unguarded_command (queued ''a1'' ''kick'' (Some ''p42'')) = Some (KickParticipant ''p42'')"
  by (simp add: unguarded_command_def str_truthy_def str_or_def)

lemma mute_guarded: "unguarded_command (queued ''a2'' ''mute'' (Some ''p1'')) = None"
  by (simp add: unguarded_command_def)

theorem dispatcher_write_back_witness:
  "(list_all (marked ''error'' (Some ''Error: not connected'') ''12:00:01'' (Some ''host-1''))
      (rows_with ''a1''
         (onHostAction failing_api ''12:00:01'' (Some (queued ''a1'' ''kick'' (Some ''p42'')))
            (sample_queue (queued ''a1'' ''kick'' (Some ''p42''))))) \<and>
    map a_id
      (w_actions
         (onHostAction failing_api ''12:00:01'' (Some (queued ''a1'' ''kick'' (Some ''p42'')))
            (sample_queue (queued ''a1'' ''kick'' (Some ''p42''))))) = [''a1'']) \<and>
   (list_all (marked ''done'' None ''12:00:01'' (Some ''host-1''))
      (rows_with ''a1''
         (onHostAction quiet_api ''12:00:01'' (Some (queued ''a1'' ''kick'' (Some ''p42'')))
            (sample_queue (queued ''a1'' ''kick'' (Some ''p42''))))) \<and>
    w_commands
      (onHostAction quiet_api ''12:00:01'' (Some (queued ''a1'' ''kick'' (Some ''p42'')))
         (sample_queue (queued ''a1'' ''kick'' (Some ''p42'')))) = [KickParticipant ''p42'']) \<and>
   list_all (marked ''done'' None ''12:00:01'' (Some ''host-1''))
      (rows_with ''a2''
         (onHostAction failing_api ''12:00:01'' (Some (queued ''a2'' ''mute'' (Some ''p1'')))
            (sample_queue (queued ''a2'' ''mute'' (Some ''p1'')))))"
proof -
  have th: "command_throws failing_api (KickParticipant ''p42'') =
              Some (JsError ''Error'' ''not connected'')"
    and me: "myUserId failing_api = Some ''host-1''"
    by (simp_all add: failing_api_def)
  have nt: "command_throws quiet_api (KickParticipant ''p42'') = None"
    and me': "myUserId quiet_api = Some ''host-1''"
    by (simp_all add: quiet_api_def)
  have str: "String_of (JsError ''Error'' ''not connected'') = ''Error: not connected''"
    by simp
  have q: "w_actions (sample_queue (queued ''a1'' ''kick'' (Some ''p42''))) =
             [queued ''a1'' ''kick'' (Some ''p42'')]"
    "w_commands (sample_queue (queued ''a1'' ''kick'' (Some ''p42''))) = []"
    by (simp_all add: sample_queue_def)
  note A = dispatcher_write_back
    [where a = "queued ''a1'' ''kick'' (Some ''p42'')" and api = failing_api
       and c = "KickParticipant ''p42''" and t = "JsError ''Error'' ''not connected''"
       and now = "''12:00:01''" and w = "sample_queue (queued ''a1'' ''kick'' (Some ''p42''))"
       and acts = "[]", OF queued_fields(1)]
  note B = dispatcher_write_back
    [where a = "queued ''a1'' ''kick'' (Some ''p42'')" and api = quiet_api
       and c = "KickParticipant ''p42''" and t = "JsError [] []"
       and now = "''12:00:01''" and w = "sample_queue (queued ''a1'' ''kick'' (Some ''p42''))"
       and acts = "[]", OF queued_fields(1)]
  note C = dispatcher_write_back
    [where a = "queued ''a2'' ''mute'' (Some ''p1'')" and api = failing_api
       and c = "MuteParticipant ''p1''" and t = "JsError [] []"
       and now = "''12:00:01''" and w = "sample_queue (queued ''a2'' ''mute'' (Some ''p1''))"
       and acts = "[]", OF queued_fields(1)]
  from A kick_unguarded th me str q(1) have a: 
    "list_all (marked ''error'' (Some ''Error: not connected'') ''12:00:01'' (Some ''host-1''))
      (rows_with ''a1''
         (onHostAction failing_api ''12:00:01'' (Some (queued ''a1'' ''kick'' (Some ''p42'')))
            (sample_queue (queued ''a1'' ''kick'' (Some ''p42''))))) \<and>
    map a_id
      (w_actions
         (onHostAction failing_api ''12:00:01'' (Some (queued ''a1'' ''kick'' (Some ''p42'')))
            (sample_queue (queued ''a1'' ''kick'' (Some ''p42''))))) = [''a1'']"
    by simp
  from B kick_unguarded nt me' q(2) have b:
    "list_all (marked ''done'' None ''12:00:01'' (Some ''host-1''))
      (rows_with ''a1''
         (onHostAction quiet_api ''12:00:01'' (Some (queued ''a1'' ''kick'' (Some ''p42'')))
            (sample_queue (queued ''a1'' ''kick'' (Some ''p42''))))) \<and>
    w_commands
      (onHostAction quiet_api ''12:00:01'' (Some (queued ''a1'' ''kick'' (Some ''p42'')))
         (sample_queue (queued ''a1'' ''kick'' (Some ''p42'')))) = [KickParticipant ''p42'']"
    by simp
  from C mute_guarded me have c:
    "list_all (marked ''done'' None ''12:00:01'' (Some ''host-1''))
      (rows_with ''a2''
         (onHostAction failing_api ''12:00:01'' (Some (queued ''a2'' ''mute'' (Some ''p1'')))
            (sample_queue (queued ''a2'' ''mute'' (Some ''p1'')))))"
    by simp
  from a b c show ?thesis by (intro conjI) simp_all
qed

lemma compute_next_override: "localAdminOverride s = Some b \<Longrightarrow> compute_next api s = b"
  by (cases b) (simp_all add: compute_next_def Let_def)

lemma recompute_override:
  "localAdminOverride s = Some b \<Longrightarrow> jitsiApi s = Some api \<Longrightarrow>
   isCurrentAdmin (recompute_admin s) = b"
  by (simp add: recompute_admin_def compute_next_override)

lemma is_me_own: "is_me api i = carries_own_id api i"
  by (cases i; cases "myUserId api") (auto simp: is_me_def carries_own_id_def str_truthy_def)

lemma targeted_addressed:
  assumes "activeMeeting s = Some m"
  shows "targeted api (activeMeeting s) a = addressed api (s_displayName m) a"
  using assms
  by (cases "target_participant_id a"; cases "target_display_name_normalized a";
      cases "myUserId api")
     (auto simp: addressed_def targeted_def str_truthy_def str_or_def Let_def)

lemma addressed_not_anonymous:
  assumes "activeMeeting s = Some m" and "addressed api (s_displayName m) a"
  shows "\<not> (\<not> str_truthy (myUserId api) \<and>
            normalize (Some (str_or (map_option s_displayName (activeMeeting s)) [])) = [])"
  using assms
  by (auto simp: addressed_def str_truthy_def str_or_def split: option.splits)

lemma onRoleChanged_override:
  "localAdminOverride (onRoleChanged api e s) =
     (case e of
        None \<Rightarrow> localAdminOverride s
      | Some v \<Rightarrow> if carries_own_id api (e_id v) then Some (e_role v = Some ''moderator'')
                  else localAdminOverride s)"
  by (cases e) (simp_all add: onRoleChanged_def apply_own_role_def showToast_def Let_def is_me_own)


lemma onEndpointMessage_override:
  "localAdminOverride (onEndpointMessage api (Some p) s) =
     (if m_type p = Some ''role-broadcast'' \<and> carries_own_id api (m_id p)
      then Some (m_role p = Some ''moderator'')
      else localAdminOverride s)"
  by (simp add: onEndpointMessage_def showToast_def Let_def is_me_own)


lemma onActionInserted_override:
  assumes "activeMeeting s = Some m"
  shows "localAdminOverride (onActionInserted env api (Some a) s) =
     (if addressed api (s_displayName m) a \<and>
         (a_type a = ''revoke-moderator'' \<or> a_type a = ''notify-admin-revoked'')
      then Some False
      else if addressed api (s_displayName m) a \<and>
         (a_type a = ''grant-moderator'' \<or> a_type a = ''notify-admin-granted'')
      then Some True
      else localAdminOverride s)"
proof (cases "addressed api (s_displayName m) a")
  case True
  note t = targeted_addressed [OF assms, of api a]
  note n = addressed_not_anonymous [OF assms True]
  from True t n show ?thesis
    by (auto simp: onActionInserted_def Let_def showToast_def navigate_def)
next
  case False
  note t = targeted_addressed [OF assms, of api a]
  from False t show ?thesis
    by (auto simp: onActionInserted_def Let_def showToast_def navigate_def)
qed


lemma effects_keep_override [simp]:
  "localAdminOverride (recompute_admin s) = localAdminOverride s"
  "localAdminOverride (admin_toast_effect s) = localAdminOverride s"
  by (simp_all add: recompute_admin_def admin_toast_effect_def showToast_def split: option.splits)

lemma onMeetingRow_case:
  "case onMeetingRow env d s of
     Inl t \<Rightarrow> whiteboardOpen s \<noteq> whiteboard_open d \<and>
              (\<exists>api. jitsiApi s = Some api \<and> command_throws api ToggleWhiteboard = Some t)
   | Inr s1 \<Rightarrow>
       localAdminOverride s1 = localAdminOverride s \<and> isCurrentAdmin s1 = isCurrentAdmin s \<and>
       prevIsAdmin s1 = prevIsAdmin s \<and> userName s1 = userName s \<and>
       adminIds s1 = (case admin_ids d of None \<Rightarrow> [] | Some a \<Rightarrow> a) \<and>
       adminDisplayNames s1 =
         (case admin_display_names d of None \<Rightarrow> [] | Some ns \<Rightarrow> map (\<lambda>n. normalize (Some n)) ns) \<and>
       (if isBanned d (str_or (Some (str_or (map_option s_displayName (activeMeeting s))
                                       (userName s))) ''Guest'')
        then activeMeeting s1 = None \<and> jitsiApi s1 = None
        else activeMeeting s1 = activeMeeting s \<and> jitsiApi s1 = jitsiApi s \<and>
             whiteboardOpen s1 = whiteboard_open d)"
  by (simp add: onMeetingRow_def executeCommand_def showToast_def navigate_def Let_def
        split: option.splits)

lemma onMeetingRow_keeps:
  assumes "onMeetingRow env d s = Inr s1"
  shows "localAdminOverride s1 = localAdminOverride s \<and> isCurrentAdmin s1 = isCurrentAdmin s \<and>
         prevIsAdmin s1 = prevIsAdmin s \<and> userName s1 = userName s"
  using onMeetingRow_case [where env = env and d = d and s = s] assms by simp

lemma onMeetingRow_settled:
  assumes "whiteboardOpen s = whiteboard_open d"
  shows "\<exists>s1. onMeetingRow env d s = Inr s1"
  using onMeetingRow_case [where env = env and d = d and s = s] assms
  by (cases "onMeetingRow env d s") simp_all

lemma onRoleChanged_keeps:
  "isCurrentAdmin (onRoleChanged api e s) = isCurrentAdmin s \<and>
   prevIsAdmin (onRoleChanged api e s) = prevIsAdmin s \<and>
   jitsiApi (onRoleChanged api e s) = jitsiApi s \<and>
   activeMeeting (onRoleChanged api e s) = activeMeeting s"
  by (cases e) (simp_all add: onRoleChanged_def apply_own_role_def showToast_def Let_def)





text \<open>No handler clears the override.\<close>

lemma handle_event_override_kept:
  assumes "handle_event env ev s = Inr s1" and "localAdminOverride s = Some b"
  shows "\<exists>c. localAdminOverride s1 = Some c"
proof (cases ev)
  case (MeetingRow d)
  with assms onMeetingRow_keeps [where env = env and d = d and s = s and ?s1.0 = s1] show ?thesis
    by (cases "activeMeeting s = None") (auto simp: handle_event_def)
next
  case Poll
  with assms show ?thesis
    by (cases "jitsiApi s") (auto simp: handle_event_def)
next
  case (RoleChanged e)
  with assms onRoleChanged_override [of _ e s] show ?thesis
    by (cases "jitsiApi s"; cases e) (auto simp: handle_event_def)
next
  case (EndpointMessage p)
  show ?thesis
  proof (cases p)
    case None
    with EndpointMessage assms show ?thesis
      by (cases "jitsiApi s") (auto simp: handle_event_def onEndpointMessage_def)
  next
    case (Some q)
    with EndpointMessage assms onEndpointMessage_override [of _ q s] show ?thesis
      by (cases "jitsiApi s") (auto simp: handle_event_def)
  qed
next
  case (ActionInserted a)
  show ?thesis
  proof (cases "activeMeeting s")
    case None
    with ActionInserted assms show ?thesis
      by (cases "jitsiApi s") (auto simp: handle_event_def)
  next
    case (Some m)
    show ?thesis
    proof (cases a)
      case None
      with ActionInserted assms show ?thesis
        by (cases "jitsiApi s") (auto simp: handle_event_def onActionInserted_def)
    next
      case act: (Some r)
      with ActionInserted assms Some onActionInserted_override [OF Some, of env _ r] show ?thesis
        by (cases "jitsiApi s") (auto simp: handle_event_def)
    qed
  qed
qed

lemma deliver_Inr:
  "deliver env ev s = Inr s' \<Longrightarrow>
   \<exists>s1. handle_event env ev s = Inr s1 \<and> s' = admin_toast_effect (recompute_admin s1)"
  by (cases "handle_event env ev s") (simp_all add: deliver_def)

lemma deliver_override_kept:
  assumes "deliver env ev s = Inr s'" and "localAdminOverride s = Some b"
  shows "\<exists>c. localAdminOverride s' = Some c"
proof -
  from deliver_Inr [OF assms(1)] obtain s1 where
    h: "handle_event env ev s = Inr s1" and e: "s' = admin_toast_effect (recompute_admin s1)"
    by blast
  from handle_event_override_kept [OF h assms(2)] e show ?thesis by simp
qed

lemma run_events_override_kept:
  "run_events env evs s = Inr s' \<Longrightarrow> localAdminOverride s = Some b \<Longrightarrow>
   \<exists>c. localAdminOverride s' = Some c"
proof (induction evs arbitrary: s b)
  case Nil
  then show ?case by simp
next
  case (Cons e evs)
  show ?case
  proof (cases "deliver env e s")
    case (Inl t)
    with Cons.prems(1) show ?thesis by simp
  next
    case (Inr s1)
    from deliver_override_kept [OF Inr Cons.prems(2)] obtain c where
      c: "localAdminOverride s1 = Some c" by blast
    from Cons.prems(1) Inr have "run_events env evs s1 = Inr s'" by simp
    from Cons.IH [OF this c] show ?thesis .
  qed
qed

lemma deliver_override_computed:
  assumes "deliver env ev s = Inr s'" and "jitsiApi s' = Some api" and "localAdminOverride s' = Some c"
  shows "isCurrentAdmin s' = c"
proof -
  from deliver_Inr [OF assms(1)] obtain s1 where
    e: "s' = admin_toast_effect (recompute_admin s1)" by blast
  have j: "jitsiApi s1 = Some api"
    using assms(2) e
    by (simp add: admin_toast_effect_def recompute_admin_def showToast_def
          split: option.splits if_splits)
  have o: "localAdminOverride s1 = Some c" using assms(3) e by simp
  have "isCurrentAdmin (admin_toast_effect (recompute_admin s1)) =
        isCurrentAdmin (recompute_admin s1)"
    by (simp add: admin_toast_effect_def showToast_def)
  with recompute_override [OF o j] e show ?thesis by simp
qed

text \<open>
  C2. With the override set, the value computed for \<^verbatim>\<open>isCurrentAdmin\<close> is the
  override, whatever the widget reports, whatever the moderator lists hold and whether or
  not the viewer is host; and after every page event that leaves the page with its widget
  and an override, the computed boolean is that override. The override is set by the three
  notifications that name the viewer. A \<^verbatim>\<open>participantRoleChanged\<close> event and a
  \<^verbatim>\<open>role-broadcast\<close> message that carry the viewer's own participant id set it to
  true when the role is \<^verbatim>\<open>moderator\<close> and to false otherwise. A queued action
  addressed to the viewer, by participant id or by normalized display name, sets it to
  true for \<^verbatim>\<open>grant-moderator\<close> and \<^verbatim>\<open>notify-admin-granted\<close> and to false for
  \<^verbatim>\<open>revoke-moderator\<close> and \<^verbatim>\<open>notify-admin-revoked\<close>. Nothing else changes it: an
  event or broadcast for another id, a message of another type (\<^verbatim>\<open>admin-granted\<close> and
  \<^verbatim>\<open>admin-revoked\<close> among them, which carry neither an id nor a name), and a queued
  action that is not addressed to the viewer or is of another type all leave it as it is.
  No sequence of page events clears an override once set.
\<close>

theorem override_precedence:
  "(localAdminOverride s = Some b \<longrightarrow> compute_next api s = b) \<and>
   (localAdminOverride s = Some b \<and> jitsiApi s = Some api \<longrightarrow>
      isCurrentAdmin (recompute_admin s) = b) \<and>
   (deliver env ev s = Inr s' \<and> jitsiApi s' = Some api \<and> localAdminOverride s' = Some b \<longrightarrow>
      isCurrentAdmin s' = b) \<and>
   (carries_own_id api (e_id e) \<longrightarrow>
      localAdminOverride (onRoleChanged api (Some e) s) = Some (e_role e = Some ''moderator'')) \<and>
   (\<not> carries_own_id api (e_id e) \<longrightarrow>
      localAdminOverride (onRoleChanged api (Some e) s) = localAdminOverride s) \<and>
   (m_type p = Some ''role-broadcast'' \<and> carries_own_id api (m_id p) \<longrightarrow>
      localAdminOverride (onEndpointMessage api (Some p) s) = Some (m_role p = Some ''moderator'')) \<and>
   (m_type p \<noteq> Some ''role-broadcast'' \<or> \<not> carries_own_id api (m_id p) \<longrightarrow>
      localAdminOverride (onEndpointMessage api (Some p) s) = localAdminOverride s) \<and>
   (activeMeeting s = Some m \<and> addressed api (s_displayName m) a \<and>
    (a_type a = ''grant-moderator'' \<or> a_type a = ''notify-admin-granted'') \<longrightarrow>
      localAdminOverride (onActionInserted env api (Some a) s) = Some True) \<and>
   (activeMeeting s = Some m \<and> addressed api (s_displayName m) a \<and>
    (a_type a = ''revoke-moderator'' \<or> a_type a = ''notify-admin-revoked'') \<longrightarrow>
      localAdminOverride (onActionInserted env api (Some a) s) = Some False) \<and>
   (activeMeeting s = Some m \<and>
    (\<not> addressed api (s_displayName m) a \<or>
     a_type a \<notin> {''grant-moderator'', ''notify-admin-granted'', ''revoke-moderator'',
                  ''notify-admin-revoked''}) \<longrightarrow>
      localAdminOverride (onActionInserted env api (Some a) s) = localAdminOverride s) \<and>
   (localAdminOverride s = Some b \<and> run_events env evs s = Inr s' \<longrightarrow>
      (\<exists>c. localAdminOverride s' = Some c))"
proof -
  have c1: "localAdminOverride s = Some b \<longrightarrow> compute_next api s = b"
    using compute_next_override [of s b api] by simp
  have c2: "localAdminOverride s = Some b \<and> jitsiApi s = Some api \<longrightarrow>
      isCurrentAdmin (recompute_admin s) = b"
    using recompute_override [of s b api] by simp
  have c3: "deliver env ev s = Inr s' \<and> jitsiApi s' = Some api \<and> localAdminOverride s' = Some b \<longrightarrow>
      isCurrentAdmin s' = b"
    using deliver_override_computed [where env = env and ev = ev and s = s and s' = s'
        and api = api and c = b] by simp
  have c4: "carries_own_id api (e_id e) \<longrightarrow>
      localAdminOverride (onRoleChanged api (Some e) s) = Some (e_role e = Some ''moderator'')"
    by (simp add: onRoleChanged_override)
  have c5: "\<not> carries_own_id api (e_id e) \<longrightarrow>
      localAdminOverride (onRoleChanged api (Some e) s) = localAdminOverride s"
    by (simp add: onRoleChanged_override)
  have c6: "m_type p = Some ''role-broadcast'' \<and> carries_own_id api (m_id p) \<longrightarrow>
      localAdminOverride (onEndpointMessage api (Some p) s) = Some (m_role p = Some ''moderator'')"
    by (simp add: onEndpointMessage_override)
  have c7: "m_type p \<noteq> Some ''role-broadcast'' \<or> \<not> carries_own_id api (m_id p) \<longrightarrow>
      localAdminOverride (onEndpointMessage api (Some p) s) = localAdminOverride s"
    by (auto simp: onEndpointMessage_override)
  have c8: "activeMeeting s = Some m \<and> addressed api (s_displayName m) a \<and>
    (a_type a = ''grant-moderator'' \<or> a_type a = ''notify-admin-granted'') \<longrightarrow>
      localAdminOverride (onActionInserted env api (Some a) s) = Some True"
    using onActionInserted_override [where s = s and m = m and env = env and api = api and a = a]
    by auto
  have c9: "activeMeeting s = Some m \<and> addressed api (s_displayName m) a \<and>
    (a_type a = ''revoke-moderator'' \<or> a_type a = ''notify-admin-revoked'') \<longrightarrow>
      localAdminOverride (onActionInserted env api (Some a) s) = Some False"
    using onActionInserted_override [where s = s and m = m and env = env and api = api and a = a]
    by auto
  have c10: "activeMeeting s = Some m \<and>
    (\<not> addressed api (s_displayName m) a \<or>
     a_type a \<notin> {''grant-moderator'', ''notify-admin-granted'', ''revoke-moderator'',
                  ''notify-admin-revoked''}) \<longrightarrow>
      localAdminOverride (onActionInserted env api (Some a) s) = localAdminOverride s"
    using onActionInserted_override [where s = s and m = m and env = env and api = api and a = a]
    by auto
  have c11: "localAdminOverride s = Some b \<and> run_events env evs s = Inr s' \<longrightarrow>
      (\<exists>c. localAdminOverride s' = Some c)"
    using run_events_override_kept [where env = env and evs = evs and s = s and s' = s' and b = b]
    by simp
  show ?thesis
    by (rule conjI [OF c1 conjI [OF c2 conjI [OF c3 conjI [OF c4 conjI [OF c5 conjI [OF c6
          conjI [OF c7 conjI [OF c8 conjI [OF c9 conjI [OF c10 c11]]]]]]]]]])
qed

lemma viewer_page_fields:
  "activeMeeting (viewer_page h) = Some (viewer_session h)"
  "jitsiApi (viewer_page h) = Some viewer_api"
  "s_displayName (viewer_session h) = ''Ann Lee''"
  "activeMeeting (plain_page h) = Some (viewer_session h)"
  "jitsiApi (plain_page h) = Some plain_api"
  by (simp_all add: viewer_page_def viewer_session_def plain_page_def)

lemma normalize_ann: "normalize (Some ''Ann Lee'') = ''ann lee''"
  by (simp add: normalize_def toLowerCase_def trim_def is_space_def lower_char_def paren_tail_def)

lemma effects_frame:
  "jitsiApi (admin_toast_effect s) = jitsiApi s" "jitsiApi (recompute_admin s) = jitsiApi s"
  "activeMeeting (admin_toast_effect s) = activeMeeting s"
  "activeMeeting (recompute_admin s) = activeMeeting s"
  "whiteboardOpen (admin_toast_effect s) = whiteboardOpen s"
  "whiteboardOpen (recompute_admin s) = whiteboardOpen s"
  "userName (admin_toast_effect s) = userName s" "userName (recompute_admin s) = userName s"
  by (simp_all add: recompute_admin_def admin_toast_effect_def showToast_def split: option.splits)

lemma deliver_Poll:
  "jitsiApi s = Some api \<Longrightarrow>
   deliver env Poll s =
     Inr (admin_toast_effect (recompute_admin (s\<lparr>roleEventTick := roleEventTick s + 1\<rparr>)))"
  by (simp add: deliver_def handle_event_def)

lemma deliver_MeetingRow:
  "activeMeeting s \<noteq> None \<Longrightarrow> onMeetingRow env d s = Inr s1 \<Longrightarrow>
   deliver env (MeetingRow d) s = Inr (admin_toast_effect (recompute_admin s1))"
  by (auto simp: deliver_def handle_event_def)

lemma own_id_p7:
  "carries_own_id plain_api (Some ''p7'')" "\<not> carries_own_id plain_api (Some ''p8'')"
  "\<not> carries_own_id plain_api None"
  by (simp_all add: carries_own_id_def plain_api_def)

theorem override_precedence_witness:
  "compute_next viewer_api ((viewer_page True)\<lparr>localAdminOverride := Some False\<rparr>) = False \<and>
   isCurrentAdmin (recompute_admin ((viewer_page True)\<lparr>localAdminOverride := Some False\<rparr>)) = False \<and>
   (\<exists>s'. deliver plain_env Poll ((viewer_page True)\<lparr>localAdminOverride := Some False\<rparr>) = Inr s' \<and>
         isCurrentAdmin s' = False) \<and>
   localAdminOverride
     (onRoleChanged plain_api (Some \<lparr>e_id = Some ''p7'', e_role = Some ''moderator''\<rparr>)
        (plain_page False)) = Some True \<and>
   localAdminOverride
     (onRoleChanged plain_api (Some \<lparr>e_id = Some ''p7'', e_role = Some ''participant''\<rparr>)
        (plain_page False)) = Some False \<and>
   localAdminOverride
     (onRoleChanged plain_api (Some \<lparr>e_id = Some ''p8'', e_role = Some ''moderator''\<rparr>)
        (plain_page False)) = None \<and>
   localAdminOverride
     (onEndpointMessage plain_api
        (Some \<lparr>m_type = Some ''role-broadcast'', m_id = Some ''p7'', m_role = Some ''moderator''\<rparr>)
        (plain_page False)) = Some True \<and>
   localAdminOverride
     (onEndpointMessage plain_api
        (Some \<lparr>m_type = Some ''admin-granted'', m_id = None, m_role = None\<rparr>)
        (plain_page False)) = None \<and>
   localAdminOverride
     (onActionInserted plain_env viewer_api
        (Some (queued ''a1'' ''grant-moderator'' (Some ''p7''))) (viewer_page False)) = Some True \<and>
   localAdminOverride
     (onActionInserted plain_env viewer_api
        (Some ((queued ''a2'' ''notify-admin-revoked'' None)
                 \<lparr>target_display_name_normalized := Some ''ann lee''\<rparr>))
        (viewer_page False)) = Some False \<and>
   localAdminOverride
     (onActionInserted plain_env viewer_api
        (Some (queued ''a3'' ''grant-moderator'' (Some ''p8''))) (viewer_page False)) = None \<and>
   (\<exists>s'. run_events plain_env [Poll, MeetingRow empty_row]
            ((viewer_page True)\<lparr>localAdminOverride := Some False\<rparr>) = Inr s' \<and>
         (\<exists>c. localAdminOverride s' = Some c))"
proof -
  define s0 where "s0 = (viewer_page True)\<lparr>localAdminOverride := Some False\<rparr>"
  define s1 where
    "s1 = admin_toast_effect (recompute_admin (s0\<lparr>roleEventTick := roleEventTick s0 + 1\<rparr>))"
  have ov: "localAdminOverride s0 = Some False" and ap: "jitsiApi s0 = Some viewer_api"
    by (simp_all add: s0_def viewer_page_def)
  have d1: "deliver plain_env Poll s0 = Inr s1"
    unfolding s1_def by (rule deliver_Poll [OF ap])
  have j1: "jitsiApi s1 = Some viewer_api" and o1: "localAdminOverride s1 = Some False"
    and am1: "activeMeeting s1 \<noteq> None" and w1: "whiteboardOpen s1 = whiteboard_open empty_row"
    by (simp_all add: s1_def s0_def viewer_page_def initial_page_def empty_row_def effects_frame)
  from onMeetingRow_settled [OF w1, of plain_env] obtain s2 where
    m2: "onMeetingRow plain_env empty_row s1 = Inr s2" by blast
  have r: "run_events plain_env [Poll, MeetingRow empty_row] s0 =
             Inr (admin_toast_effect (recompute_admin s2))"
    using d1 deliver_MeetingRow [OF am1 m2] by simp
  note A = override_precedence
    [where s = s0 and b = False and api = viewer_api and env = plain_env
       and evs = "[Poll, MeetingRow empty_row]" and ev = Poll and s' = s1]
  note A' = override_precedence
    [where s = s0 and b = False and api = viewer_api and env = plain_env
       and evs = "[Poll, MeetingRow empty_row]"
       and s' = "admin_toast_effect (recompute_admin s2)"]
  have a1: "compute_next viewer_api s0 = False"
    using A [THEN conjunct1] ov by simp
  have a2: "isCurrentAdmin (recompute_admin s0) = False"
    using A [THEN conjunct2, THEN conjunct1] ov ap by simp
  have a3: "isCurrentAdmin s1 = False"
    using A [THEN conjunct2, THEN conjunct2, THEN conjunct1] d1 j1 o1 by simp
  have a11: "\<exists>c. localAdminOverride (admin_toast_effect (recompute_admin s2)) = Some c"
    using A' [THEN conjunct2, THEN conjunct2, THEN conjunct2, THEN conjunct2, THEN conjunct2,
              THEN conjunct2, THEN conjunct2, THEN conjunct2, THEN conjunct2, THEN conjunct2]
          ov r by simp
  have b4: "localAdminOverride
     (onRoleChanged plain_api (Some \<lparr>e_id = Some ''p7'', e_role = Some ''moderator''\<rparr>)
        (plain_page False)) = Some True"
    using override_precedence
        [where s = "plain_page False" and api = plain_api
           and e = "\<lparr>e_id = Some ''p7'', e_role = Some ''moderator''\<rparr>",
             THEN conjunct2, THEN conjunct2, THEN conjunct2, THEN conjunct1]
          own_id_p7(1) by simp
  have b4': "localAdminOverride
     (onRoleChanged plain_api (Some \<lparr>e_id = Some ''p7'', e_role = Some ''participant''\<rparr>)
        (plain_page False)) = Some False"
    using override_precedence
        [where s = "plain_page False" and api = plain_api
           and e = "\<lparr>e_id = Some ''p7'', e_role = Some ''participant''\<rparr>",
             THEN conjunct2, THEN conjunct2, THEN conjunct2, THEN conjunct1]
          own_id_p7(1) by simp
  have b5: "localAdminOverride
     (onRoleChanged plain_api (Some \<lparr>e_id = Some ''p8'', e_role = Some ''moderator''\<rparr>)
        (plain_page False)) = None"
    using override_precedence
        [where s = "plain_page False" and api = plain_api
           and e = "\<lparr>e_id = Some ''p8'', e_role = Some ''moderator''\<rparr>",
             THEN conjunct2, THEN conjunct2, THEN conjunct2, THEN conjunct2, THEN conjunct1]
          own_id_p7(2)
    by (simp add: plain_page_def viewer_page_def initial_page_def)
  have b6: "localAdminOverride
     (onEndpointMessage plain_api
        (Some \<lparr>m_type = Some ''role-broadcast'', m_id = Some ''p7'', m_role = Some ''moderator''\<rparr>)
        (plain_page False)) = Some True"
    using override_precedence
        [where s = "plain_page False" and api = plain_api
           and p = "\<lparr>m_type = Some ''role-broadcast'', m_id = Some ''p7'',
                          m_role = Some ''moderator''\<rparr>",
             THEN conjunct2, THEN conjunct2, THEN conjunct2, THEN conjunct2, THEN conjunct2,
             THEN conjunct1]
          own_id_p7(1) by simp
  have b7: "localAdminOverride
     (onEndpointMessage plain_api
        (Some \<lparr>m_type = Some ''admin-granted'', m_id = None, m_role = None\<rparr>)
        (plain_page False)) = None"
    using override_precedence
        [where s = "plain_page False" and api = plain_api
           and p = "\<lparr>m_type = Some ''admin-granted'', m_id = None, m_role = None\<rparr>",
             THEN conjunct2, THEN conjunct2, THEN conjunct2, THEN conjunct2, THEN conjunct2,
             THEN conjunct2, THEN conjunct1]
    by (simp add: plain_page_def viewer_page_def initial_page_def)
  have ad1: "addressed viewer_api (s_displayName (viewer_session False))
               (queued ''a1'' ''grant-moderator'' (Some ''p7''))"
    by (simp add: addressed_def viewer_api_def)
  have ad2: "addressed viewer_api (s_displayName (viewer_session False))
               ((queued ''a2'' ''notify-admin-revoked'' None)
                  \<lparr>target_display_name_normalized := Some ''ann lee''\<rparr>)"
    by (simp add: addressed_def viewer_page_fields normalize_ann)
  have ad3: "\<not> addressed viewer_api (s_displayName (viewer_session False))
               (queued ''a3'' ''grant-moderator'' (Some ''p8''))"
    by (simp add: addressed_def viewer_api_def)
  have c8: "localAdminOverride
     (onActionInserted plain_env viewer_api
        (Some (queued ''a1'' ''grant-moderator'' (Some ''p7''))) (viewer_page False)) = Some True"
    using override_precedence
        [where s = "viewer_page False" and api = viewer_api and env = plain_env
           and m = "viewer_session False"
           and a = "queued ''a1'' ''grant-moderator'' (Some ''p7'')",
             THEN conjunct2, THEN conjunct2, THEN conjunct2, THEN conjunct2, THEN conjunct2,
             THEN conjunct2, THEN conjunct2, THEN conjunct1]
          viewer_page_fields(1) [of False] ad1 by simp
  have c9: "localAdminOverride
     (onActionInserted plain_env viewer_api
        (Some ((queued ''a2'' ''notify-admin-revoked'' None)
                 \<lparr>target_display_name_normalized := Some ''ann lee''\<rparr>))
        (viewer_page False)) = Some False"
    using override_precedence
        [where s = "viewer_page False" and api = viewer_api and env = plain_env
           and m = "viewer_session False"
           and a = "(queued ''a2'' ''notify-admin-revoked'' None)
                          \<lparr>target_display_name_normalized := Some ''ann lee''\<rparr>",
             THEN conjunct2, THEN conjunct2, THEN conjunct2, THEN conjunct2, THEN conjunct2,
             THEN conjunct2, THEN conjunct2, THEN conjunct2, THEN conjunct1]
          viewer_page_fields(1) [of False] ad2 by simp
  have c10: "localAdminOverride
     (onActionInserted plain_env viewer_api
        (Some (queued ''a3'' ''grant-moderator'' (Some ''p8''))) (viewer_page False)) = None"
    using override_precedence
        [where s = "viewer_page False" and api = viewer_api and env = plain_env
           and m = "viewer_session False"
           and a = "queued ''a3'' ''grant-moderator'' (Some ''p8'')",
             THEN conjunct2, THEN conjunct2, THEN conjunct2, THEN conjunct2, THEN conjunct2,
             THEN conjunct2, THEN conjunct2, THEN conjunct2, THEN conjunct2, THEN conjunct1]
          viewer_page_fields(1) [of False] ad3
    by (simp add: viewer_page_def initial_page_def)
  have a3': "\<exists>s'. deliver plain_env Poll s0 = Inr s' \<and> isCurrentAdmin s' = False"
    using d1 a3 by blast
  have a11': "\<exists>s'. run_events plain_env [Poll, MeetingRow empty_row] s0 = Inr s' \<and>
         (\<exists>c. localAdminOverride s' = Some c)"
    using r a11 by blast
  show ?thesis
    unfolding s0_def [symmetric]
    by (rule conjI [OF a1 conjI [OF a2 conjI [OF a3' conjI [OF b4 conjI [OF b4' conjI [OF b5
          conjI [OF b6 conjI [OF b7 conjI [OF c8 conjI [OF c9 conjI [OF c10 a11']]]]]]]]]]])
qed

lemma same_view_trans: "same_view s t \<Longrightarrow> same_view t u \<Longrightarrow> same_view s u"
  by (simp add: same_view_def)

lemma same_view_effects: "same_view (admin_toast_effect (recompute_admin s)) s"
  by (simp add: same_view_def recompute_admin_def admin_toast_effect_def showToast_def
        split: option.splits)

lemma compute_next_view: "same_view s t \<Longrightarrow> compute_next api s = compute_next api t"
  by (simp add: same_view_def compute_next_def)

lemma effects_computed:
  "isCurrentAdmin (admin_toast_effect (recompute_admin x)) =
     (case jitsiApi x of None \<Rightarrow> isCurrentAdmin x | Some api \<Rightarrow> compute_next api x)"
  by (simp add: recompute_admin_def admin_toast_effect_def showToast_def split: option.splits)

lemma effects_whiteboard:
  "whiteboardOpen (admin_toast_effect (recompute_admin x)) = whiteboardOpen x"
  by (simp add: recompute_admin_def admin_toast_effect_def showToast_def split: option.splits)

lemma onRoleChanged_view:
  "same_view s t \<Longrightarrow> same_view (onRoleChanged api e s) (onRoleChanged api e t)"
  by (simp add: same_view_def onRoleChanged_def apply_own_role_def showToast_def Let_def
           split: option.splits)

lemma onRoleChanged_twice:
  "same_view (onRoleChanged api e (onRoleChanged api e s)) (onRoleChanged api e s)"
  by (simp add: same_view_def onRoleChanged_def apply_own_role_def showToast_def Let_def
           split: option.splits)

lemma redeliver_role:
  assumes "deliver env (RoleChanged e) s = Inr s'"
  shows "\<exists>s''. deliver env (RoleChanged e) s' = Inr s'' \<and> isCurrentAdmin s'' = isCurrentAdmin s'"
proof (cases "jitsiApi s")
  case None
  with assms have s': "s' = admin_toast_effect (recompute_admin s)"
    by (simp add: deliver_def handle_event_def)
  have j: "jitsiApi s' = None"
    using same_view_effects [of s] None unfolding s' by (simp add: same_view_def)
  then have "deliver env (RoleChanged e) s' = Inr (admin_toast_effect (recompute_admin s'))"
    by (simp add: deliver_def handle_event_def)
  moreover have "isCurrentAdmin (admin_toast_effect (recompute_admin s')) = isCurrentAdmin s'"
    using j by (simp add: effects_computed)
  ultimately show ?thesis by blast
next
  case (Some api)
  define s1 where "s1 = onRoleChanged api e s"
  from Some assms have s': "s' = admin_toast_effect (recompute_admin s1)"
    by (simp add: deliver_def handle_event_def s1_def)
  have j1: "jitsiApi s1 = Some api"
    using Some by (simp add: s1_def onRoleChanged_keeps)
  have v: "same_view s' s1" unfolding s' by (rule same_view_effects)
  then have j': "jitsiApi s' = Some api" using j1 by (simp add: same_view_def)
  have c': "isCurrentAdmin s' = compute_next api s1"
    unfolding s' using j1 by (simp add: effects_computed)
  define s2 where "s2 = onRoleChanged api e s'"
  have d: "deliver env (RoleChanged e) s' = Inr (admin_toast_effect (recompute_admin s2))"
    using j' by (simp add: deliver_def handle_event_def s2_def)
  have j2: "jitsiApi s2 = Some api"
    using j' by (simp add: s2_def onRoleChanged_keeps)
  have "same_view s2 (onRoleChanged api e s1)"
    unfolding s2_def by (rule onRoleChanged_view [OF v])
  moreover have "same_view (onRoleChanged api e s1) s1"
    unfolding s1_def by (rule onRoleChanged_twice)
  ultimately have "same_view s2 s1" by (rule same_view_trans)
  from compute_next_view [OF this, of api] c' j2
  have "isCurrentAdmin (admin_toast_effect (recompute_admin s2)) = isCurrentAdmin s'"
    by (simp add: effects_computed)
  with d show ?thesis by blast
qed

lemma redeliver_row:
  assumes "deliver env (MeetingRow d) s = Inr s'"
  shows "\<exists>s''. deliver env (MeetingRow d) s' = Inr s'' \<and> isCurrentAdmin s'' = isCurrentAdmin s'"
proof (cases "activeMeeting s")
  case None
  with assms have s': "s' = admin_toast_effect (recompute_admin s)"
    by (simp add: deliver_def handle_event_def)
  have v: "same_view s' s" unfolding s' by (rule same_view_effects)
  then have am: "activeMeeting s' = None" and j: "jitsiApi s' = jitsiApi s"
    using None by (simp_all add: same_view_def)
  have d: "deliver env (MeetingRow d) s' = Inr (admin_toast_effect (recompute_admin s'))"
    using am by (simp add: deliver_def handle_event_def)
  have "isCurrentAdmin (admin_toast_effect (recompute_admin s')) = isCurrentAdmin s'"
  proof (cases "jitsiApi s")
    case None
    with j show ?thesis by (simp add: effects_computed)
  next
    case (Some api)
    with j compute_next_view [OF v, of api] show ?thesis
      unfolding s' by (simp add: effects_computed)
  qed
  with d show ?thesis by blast
next
  case (Some m)
  from assms Some obtain s1 where
    h: "onMeetingRow env d s = Inr s1" and s': "s' = admin_toast_effect (recompute_admin s1)"
    by (cases "onMeetingRow env d s") (simp_all add: deliver_def handle_event_def)
  have v: "same_view s' s1" unfolding s' by (rule same_view_effects)
  note f1 = onMeetingRow_case [where env = env and d = d and s = s, unfolded h, simplified]
  show ?thesis
  proof (cases "isBanned d (str_or (Some (str_or (map_option s_displayName (activeMeeting s))
                              (userName s))) ''Guest'')")
    case True
    with f1 have "activeMeeting s1 = None" "jitsiApi s1 = None" by simp_all
    with v have am: "activeMeeting s' = None" and j: "jitsiApi s' = None"
      by (simp_all add: same_view_def)
    have d: "deliver env (MeetingRow d) s' = Inr (admin_toast_effect (recompute_admin s'))"
      using am by (simp add: deliver_def handle_event_def)
    have "isCurrentAdmin (admin_toast_effect (recompute_admin s')) = isCurrentAdmin s'"
      using j by (simp add: effects_computed)
    with d show ?thesis by blast
  next
    case False
    with f1 have am1: "activeMeeting s1 = activeMeeting s" and j1: "jitsiApi s1 = jitsiApi s"
      and wb1: "whiteboardOpen s1 = whiteboard_open d" and un1: "userName s1 = userName s"
      and ov1: "localAdminOverride s1 = localAdminOverride s"
      and ids1: "adminIds s1 = (case admin_ids d of None \<Rightarrow> [] | Some a \<Rightarrow> a)"
      and nm1: "adminDisplayNames s1 =
         (case admin_display_names d of None \<Rightarrow> [] | Some ns \<Rightarrow> map (\<lambda>n. normalize (Some n)) ns)"
      by simp_all
    from v have am': "activeMeeting s' = activeMeeting s1" and j': "jitsiApi s' = jitsiApi s1"
      and un': "userName s' = userName s1" and ov': "localAdminOverride s' = localAdminOverride s1"
      by (simp_all add: same_view_def)
    have wb': "whiteboardOpen s' = whiteboard_open d"
      unfolding s' using wb1 by (simp add: effects_whiteboard)
    from onMeetingRow_settled [OF wb', of env] obtain s2 where
      h2: "onMeetingRow env d s' = Inr s2" by blast
    have nb: "\<not> isBanned d (str_or (Some (str_or (map_option s_displayName (activeMeeting s'))
                              (userName s'))) ''Guest'')"
      using False am' am1 un' un1 by simp
    note f2 = onMeetingRow_case [where env = env and d = d and s = s', unfolded h2, simplified]
    from f2 nb have "activeMeeting s2 = activeMeeting s'" "jitsiApi s2 = jitsiApi s'"
      "userName s2 = userName s'" "localAdminOverride s2 = localAdminOverride s'"
      "adminIds s2 = (case admin_ids d of None \<Rightarrow> [] | Some a \<Rightarrow> a)"
      "adminDisplayNames s2 =
         (case admin_display_names d of None \<Rightarrow> [] | Some ns \<Rightarrow> map (\<lambda>n. normalize (Some n)) ns)"
      "isCurrentAdmin s2 = isCurrentAdmin s'"
      by simp_all
    with am' j' un' ov' ids1 nm1 have v2: "same_view s2 s1" and c2: "isCurrentAdmin s2 = isCurrentAdmin s'"
      and j2: "jitsiApi s2 = jitsiApi s1"
      by (simp_all add: same_view_def)
    have d: "deliver env (MeetingRow d) s' = Inr (admin_toast_effect (recompute_admin s2))"
      using am' am1 Some h2 by (simp add: deliver_def handle_event_def)
    have "isCurrentAdmin (admin_toast_effect (recompute_admin s2)) = isCurrentAdmin s'"
    proof (cases "jitsiApi s1")
      case None
      with j2 c2 show ?thesis by (simp add: effects_computed)
    next
      case (Some api)
      with j2 compute_next_view [OF v2, of api] show ?thesis
        unfolding s' by (simp add: effects_computed)
    qed
    with d show ?thesis by blast
  qed
qed

lemma redeliver_again:
  assumes "ev = RoleChanged e \<or> ev = MeetingRow d" and "deliver env ev s = Inr s'"
  shows "\<exists>s''. deliver env ev s' = Inr s'' \<and> isCurrentAdmin s'' = isCurrentAdmin s'"
  using assms redeliver_role [of env e s s'] redeliver_row [of env d s s'] by blast

lemma redeliver_computed:
  assumes "ev = RoleChanged e \<or> ev = MeetingRow d"
  shows "computed_admin (redeliver env ev (Suc n) s) = computed_admin (deliver env ev s)"
proof (induction n arbitrary: s)
  case 0
  show ?case by (cases "deliver env ev s") simp_all
next
  case (Suc n)
  show ?case
  proof (cases "deliver env ev s")
    case (Inl t)
    then show ?thesis by simp
  next
    case (Inr s1)
    from redeliver_again [OF assms Inr] obtain s2 where
      "deliver env ev s1 = Inr s2" "isCurrentAdmin s2 = isCurrentAdmin s1" by blast
    with Suc.IH [of s1] Inr show ?thesis
      by (simp add: computed_admin_def)
  qed
qed

lemma deliver_down:
  assumes "deliver env ev s = Inl t"
  shows "\<exists>d api. ev = MeetingRow d \<and> whiteboardOpen s \<noteq> whiteboard_open d \<and>
           jitsiApi s = Some api \<and> command_throws api ToggleWhiteboard = Some t"
proof (cases ev)
  case (MeetingRow d)
  with assms have h: "onMeetingRow env d s = Inl t"
    by (cases "onMeetingRow env d s"; cases "activeMeeting s = None")
       (simp_all add: deliver_def handle_event_def)
  from onMeetingRow_case [where env = env and d = d and s = s, unfolded h, simplified] MeetingRow
  show ?thesis by simp
next
  case (RoleChanged e)
  with assms show ?thesis
    by (cases "jitsiApi s") (simp_all add: deliver_def handle_event_def)
next
  case (EndpointMessage p)
  with assms show ?thesis
    by (cases "jitsiApi s") (simp_all add: deliver_def handle_event_def)
next
  case (ActionInserted a)
  with assms show ?thesis
    by (cases "jitsiApi s") (simp_all add: deliver_def handle_event_def)
next
  case Poll
  with assms show ?thesis
    by (cases "jitsiApi s") (simp_all add: deliver_def handle_event_def)
qed

text \<open>
  C3. Delivering the same \<^verbatim>\<open>participantRoleChanged\<close> event, or the same
  meeting-row snapshot, \<open>n + 1\<close> times in a row leaves the page as one delivery leaves
  it, as far as \<^verbatim>\<open>isCurrentAdmin\<close> goes: when the first delivery goes through, so do
  the others, and the boolean is the one the first delivery computed; when the first
  delivery takes the page down there is nothing left to deliver to. A delivery takes the
  page down only when it is a snapshot whose whiteboard flag differs from the page's and
  the widget throws on the toggle command.
\<close>

theorem redelivery_idempotent:
  assumes "ev = RoleChanged e \<or> ev = MeetingRow d"
  shows "computed_admin (redeliver env ev (Suc n) s) = computed_admin (deliver env ev s) \<and>
         (deliver env ev s = Inl t \<longrightarrow>
            ev = MeetingRow d \<and> whiteboardOpen s \<noteq> whiteboard_open d \<and>
            (\<exists>api. jitsiApi s = Some api \<and> command_throws api ToggleWhiteboard = Some t))"
proof -
  have "deliver env ev s = Inl t \<longrightarrow>
            ev = MeetingRow d \<and> whiteboardOpen s \<noteq> whiteboard_open d \<and>
            (\<exists>api. jitsiApi s = Some api \<and> command_throws api ToggleWhiteboard = Some t)"
  proof
    assume "deliver env ev s = Inl t"
    from deliver_down [OF this] assms
    show "ev = MeetingRow d \<and> whiteboardOpen s \<noteq> whiteboard_open d \<and>
            (\<exists>api. jitsiApi s = Some api \<and> command_throws api ToggleWhiteboard = Some t)"
      by auto
  qed
  with redeliver_computed [OF assms, of env n s] show ?thesis by simp
qed

theorem redelivery_idempotent_witness:
  "computed_admin (deliver plain_env promote_me (plain_page False)) = Some True \<and>
   computed_admin (redeliver plain_env promote_me (Suc 2) (plain_page False)) = Some True \<and>
   computed_admin (deliver plain_env (MeetingRow admins_row) (plain_page False)) = Some True \<and>
   computed_admin (redeliver plain_env (MeetingRow admins_row) (Suc 1) (plain_page False)) =
     Some True \<and>
   computed_admin
     (deliver plain_env (MeetingRow (admins_row\<lparr>whiteboard_open := True\<rparr>)) broken_page) = None \<and>
   computed_admin
     (redeliver plain_env (MeetingRow (admins_row\<lparr>whiteboard_open := True\<rparr>)) (Suc 1)
        broken_page) = None"
proof -
  have a: "promote_me = RoleChanged (Some \<lparr>e_id = Some ''p7'', e_role = Some ''moderator''\<rparr>) \<or>
           promote_me = MeetingRow admins_row"
    by (simp add: promote_me_def)
  have b: "MeetingRow admins_row = RoleChanged None \<or> MeetingRow admins_row = MeetingRow admins_row"
    by simp
  have c: "MeetingRow (admins_row\<lparr>whiteboard_open := True\<rparr>) = RoleChanged None \<or>
           MeetingRow (admins_row\<lparr>whiteboard_open := True\<rparr>) =
             MeetingRow (admins_row\<lparr>whiteboard_open := True\<rparr>)"
    by simp
  note A = redelivery_idempotent
    [OF a, where env = plain_env and n = 2 and s = "plain_page False", THEN conjunct1]
  note B = redelivery_idempotent
    [OF b, where env = plain_env and n = 1 and s = "plain_page False", THEN conjunct1]
  note C = redelivery_idempotent
    [OF c, where env = plain_env and n = 1 and s = broken_page, THEN conjunct1]
  have j: "jitsiApi (plain_page False) = Some plain_api"
    and am: "activeMeeting (plain_page False) = Some (viewer_session False)"
    by (simp_all add: plain_page_def viewer_page_def)
  have own: "carries_own_id plain_api (Some ''p7'')"
    by (simp add: carries_own_id_def plain_api_def)
  have d1: "deliver plain_env promote_me (plain_page False) =
              Inr (admin_toast_effect (recompute_admin
                 (onRoleChanged plain_api
                    (Some \<lparr>e_id = Some ''p7'', e_role = Some ''moderator''\<rparr>) (plain_page False))))"
    using j by (simp add: deliver_def handle_event_def promote_me_def)
  have o1: "localAdminOverride
              (onRoleChanged plain_api
                 (Some \<lparr>e_id = Some ''p7'', e_role = Some ''moderator''\<rparr>) (plain_page False)) =
            Some True"
    using own by (simp add: onRoleChanged_override)
  have j1: "jitsiApi
              (onRoleChanged plain_api
                 (Some \<lparr>e_id = Some ''p7'', e_role = Some ''moderator''\<rparr>) (plain_page False)) =
            Some plain_api"
    using j by (simp add: onRoleChanged_keeps)
  have v1: "computed_admin (deliver plain_env promote_me (plain_page False)) = Some True"
    unfolding d1 using j1 compute_next_override [OF o1, of plain_api]
    by (simp add: computed_admin_def effects_computed)
  have wb: "whiteboardOpen (plain_page False) = whiteboard_open admins_row"
    by (simp add: plain_page_def viewer_page_def initial_page_def admins_row_def empty_row_def)
  from onMeetingRow_settled [OF wb, of plain_env] obtain s1 where
    h: "onMeetingRow plain_env admins_row (plain_page False) = Inr s1" by blast
  have nb: "\<not> isBanned admins_row (str_or (Some (str_or
                (map_option s_displayName (activeMeeting (plain_page False)))
                (userName (plain_page False)))) ''Guest'')"
    by (simp add: isBanned_def admins_row_def empty_row_def)
  note f = onMeetingRow_case
    [where env = plain_env and d = admins_row and s = "plain_page False", unfolded h, simplified]
  from f nb have s1: "jitsiApi s1 = Some plain_api" "adminIds s1 = [''p7'']"
    "localAdminOverride s1 = None"
    by (simp_all add: j admins_row_def empty_row_def plain_page_def viewer_page_def
          initial_page_def)
  have d2: "deliver plain_env (MeetingRow admins_row) (plain_page False) =
              Inr (admin_toast_effect (recompute_admin s1))"
    using am h by (simp add: deliver_def handle_event_def)
  have "compute_next plain_api s1"
    using s1 by (simp add: compute_next_def Let_def str_truthy_def str_or_def plain_api_def)
  then have v2: "computed_admin (deliver plain_env (MeetingRow admins_row) (plain_page False)) =
                   Some True"
    unfolding d2 using s1(1) by (simp add: computed_admin_def effects_computed)
  have v3: "computed_admin
     (deliver plain_env (MeetingRow (admins_row\<lparr>whiteboard_open := True\<rparr>)) broken_page) = None"
    by (simp add: computed_admin_def deliver_def handle_event_def onMeetingRow_def
          broken_page_def viewer_page_def initial_page_def viewer_session_def admins_row_def
          empty_row_def isBanned_def executeCommand_def str_truthy_def Let_def)
  from A v1 B v2 C v3 show ?thesis by simp
qed








lemma validate_abc: "validateMeetingAccess (Some ''abc123'') ''/meeting/abc123'' = Valid ''abc123'' False"
  by (simp add: validateMeetingAccess_def str_truthy_def str_or_def trim_def is_space_def Let_def)

lemma resolve_identity_flags [simp]:
  "resolve_identity env (s\<lparr>isPageLoading := a, isJitsiLoading := b, canJoinMeeting := c,
                           isWaitingForHost := d\<rparr>) = resolve_identity env s"
  by (simp add: resolve_identity_def)

lemma valid_truthy:
  "validateMeetingAccess mid p = Valid cid web \<Longrightarrow> str_truthy mid"
  by (simp add: validateMeetingAccess_def Let_def split: if_splits)

lemma initializeMeeting_banned:
  assumes v: "validateMeetingAccess (meetingId env) (pathname env) = Valid cid web"
    and fresh: "\<not> already_initialized s cid"
    and ident: "resolve_identity env s = Some ident"
    and fetched: "fetchMeeting env cid = Some row"
    and banned: "isBanned row (i_displayName ident)"
  shows "initializeMeeting env s =
           (navigate (landing env)
              (showToast
                 (Toast ''Access Denied'' ''You have been removed from this meeting.'' ''error'')
                 (s\<lparr>isPageLoading := True, isJitsiLoading := False, canJoinMeeting := False,
                    isWaitingForHost := False\<rparr>)))\<lparr>isPageLoading := False\<rparr>"
  using valid_truthy [OF v] v fresh ident fetched banned
  by (simp add: initializeMeeting_def join_meeting_def Let_def)

lemma with_host_token_same [simp]:
  "meetingId (with_host_token env cid tok) = meetingId env"
  "pathname (with_host_token env cid tok) = pathname env"
  "fetchMeeting (with_host_token env cid tok) = fetchMeeting env"
  "role (with_host_token env cid tok) = role env"
  "landing (with_host_token env cid tok) = landing env"
  "joinAsGuest (with_host_token env cid tok) = joinAsGuest env"
  "resolve_identity (with_host_token env cid tok) s = resolve_identity env s"
  by (simp_all add: with_host_token_def role_def landing_def joinAsGuest_def
        resolve_identity_def Let_def)

text \<open>
  C4 (as amended). When \<^verbatim>\<open>initializeMeeting\<close> reaches the ban check (valid link, not
  already initialized, identity resolved, meeting row fetched) and the viewer's display
  name, trimmed and lower-cased, equals a trimmed and lower-cased entry of
  \<^verbatim>\<open>banned_display_names\<close>, the viewer gets the Access Denied toast and is navigated to
  the landing route; the active meeting and the credential are left as they were, no
  credential is requested, \<^verbatim>\<open>canJoinMeeting\<close> is false, and no widget is mounted when
  none was. The outcome is the same whatever host token is stored for the meeting.
\<close>

theorem banned_viewer_redirected:
  assumes v: "validateMeetingAccess (meetingId env) (pathname env) = Valid cid web"
    and fresh: "\<not> already_initialized s cid"
    and ident: "resolve_identity env s = Some ident"
    and fetched: "fetchMeeting env cid = Some row"
    and banned: "isBanned row (i_displayName ident)"
  shows "toasts (initializeMeeting env s) =
           toasts s @ [Toast ''Access Denied'' ''You have been removed from this meeting.''
                         ''error''] \<and>
         navigations (initializeMeeting env s) = navigations s @ [landing env] \<and>
         activeMeeting (initializeMeeting env s) = activeMeeting s \<and>
         adminJwt (initializeMeeting env s) = adminJwt s \<and>
         jwtRequests (initializeMeeting env s) = jwtRequests s \<and>
         \<not> canJoinMeeting (initializeMeeting env s) \<and>
         (activeMeeting s = None \<longrightarrow> \<not> widget_mounted (initializeMeeting env s)) \<and>
         (\<forall>tok. initializeMeeting (with_host_token env cid tok) s = initializeMeeting env s)"
proof -
  note r = initializeMeeting_banned [OF v fresh ident fetched banned]
  have other: "\<forall>tok. initializeMeeting (with_host_token env cid tok) s = initializeMeeting env s"
    using initializeMeeting_banned [of "with_host_token env cid _" cid web s ident row]
      v fresh ident fetched banned r
    by simp
  have local:
    "toasts (initializeMeeting env s) =
           toasts s @ [Toast ''Access Denied'' ''You have been removed from this meeting.''
                         ''error''] \<and>
         navigations (initializeMeeting env s) = navigations s @ [landing env] \<and>
         activeMeeting (initializeMeeting env s) = activeMeeting s \<and>
         adminJwt (initializeMeeting env s) = adminJwt s \<and>
         jwtRequests (initializeMeeting env s) = jwtRequests s \<and>
         \<not> canJoinMeeting (initializeMeeting env s) \<and>
         (activeMeeting s = None \<longrightarrow> \<not> widget_mounted (initializeMeeting env s))"
    unfolding r by (simp add: navigate_def showToast_def widget_mounted_def)
  from local other show ?thesis by simp
qed

lemma viewer_env_fields:
  "meetingId (viewer_env n t) = Some ''abc123''"
  "pathname (viewer_env n t) = ''/meeting/abc123''"
  "fetchMeeting (viewer_env n t) ''abc123'' = Some sample_row"
  by (simp_all add: viewer_env_def)

lemma viewer_identity:
  "n \<noteq> [] \<Longrightarrow>
   resolve_identity (viewer_env n t) initial_page =
     Some \<lparr>isGuest = True, i_displayName = n, i_currentUser = None\<rparr>"
  by (simp add: resolve_identity_def viewer_env_def joinAsGuest_def str_or_def initial_page_def
        Let_def)

lemma initial_not_initialized: "\<not> already_initialized initial_page cid"
  by (simp add: already_initialized_def initial_page_def)

lemma banned_shouting: "isBanned sample_row '' JOHN smith ''"
  by (simp add: isBanned_def sample_row_def toLowerCase_def trim_def is_space_def lower_char_def
        str_or_def)

theorem banned_viewer_redirected_witness:
  "isHost (viewer_env '' JOHN smith '' (Some ''T1'')) ''abc123'' sample_row \<and>
   toasts (initializeMeeting (viewer_env '' JOHN smith '' (Some ''T1'')) initial_page) =
     [Toast ''Access Denied'' ''You have been removed from this meeting.'' ''error''] \<and>
   navigations (initializeMeeting (viewer_env '' JOHN smith '' (Some ''T1'')) initial_page) =
     [''/home''] \<and>
   \<not> widget_mounted (initializeMeeting (viewer_env '' JOHN smith '' (Some ''T1'')) initial_page)"
proof -
  have v: "validateMeetingAccess (meetingId (viewer_env '' JOHN smith '' (Some ''T1'')))
             (pathname (viewer_env '' JOHN smith '' (Some ''T1''))) = Valid ''abc123'' False"
    by (simp add: viewer_env_fields validate_abc)
  have i: "resolve_identity (viewer_env '' JOHN smith '' (Some ''T1'')) initial_page =
             Some \<lparr>isGuest = True, i_displayName = '' JOHN smith '', i_currentUser = None\<rparr>"
    by (rule viewer_identity) simp
  have b: "isBanned sample_row
             (i_displayName \<lparr>isGuest = True, i_displayName = '' JOHN smith '',
                             i_currentUser = None\<rparr>)"
    using banned_shouting by simp
  have h: "isHost (viewer_env '' JOHN smith '' (Some ''T1'')) ''abc123'' sample_row"
    by (simp add: isHost_def viewer_env_def sample_row_def str_truthy_def)
  have l: "landing (viewer_env '' JOHN smith '' (Some ''T1'')) = ''/home''"
    by (simp add: landing_def role_def viewer_env_def str_or_def toLowerCase_def)
  have t0: "toasts initial_page = []" "navigations initial_page = []"
    "activeMeeting initial_page = None"
    by (simp_all add: initial_page_def)
  from banned_viewer_redirected [OF v initial_not_initialized i viewer_env_fields(3) b] h l t0
  show ?thesis by simp
qed

text \<open>
  C4 as stated fails: the ban check trims and lower-cases only. A guest named
  \<^verbatim>\<open>John  Smith\<close> (two spaces) has the same normalized display name as the banned entry
  \<^verbatim>\<open>john smith\<close>, yet is not redirected and the widget is mounted.
\<close>

theorem spaced_name_not_banned:
  "normalize (Some ''John  Smith'') = normalize (Some ''john smith'') \<and>
   banned_display_names sample_row = Some [Some ''john smith''] \<and>
   \<not> isBanned sample_row ''John  Smith'' \<and>
   toasts (initializeMeeting (viewer_env ''John  Smith'' None) initial_page) = [] \<and>
   navigations (initializeMeeting (viewer_env ''John  Smith'' None) initial_page) = [] \<and>
   widget_mounted (initializeMeeting (viewer_env ''John  Smith'' None) initial_page)"
proof -
  have n: "normalize (Some ''John  Smith'') = normalize (Some ''john smith'')"
    by (simp add: normalize_def toLowerCase_def trim_def is_space_def lower_char_def
          paren_tail_def)
  have nb: "\<not> isBanned sample_row ''John  Smith''"
    by (simp add: isBanned_def sample_row_def toLowerCase_def trim_def is_space_def
          lower_char_def str_or_def)
  have i: "resolve_identity (viewer_env ''John  Smith'' None)
             (initial_page\<lparr>isPageLoading := True, isJitsiLoading := False,
                canJoinMeeting := False, isWaitingForHost := False\<rparr>) =
           Some \<lparr>isGuest = True, i_displayName = ''John  Smith'', i_currentUser = None\<rparr>"
    using viewer_identity [of "''John  Smith''" None] by simp
  have h: "\<not> isHost (viewer_env ''John  Smith'' None) ''abc123'' sample_row"
    by (simp add: isHost_def viewer_env_def str_truthy_def)
  have run: "initializeMeeting (viewer_env ''John  Smith'' None) initial_page =
               (handleParticipantJoin
                  (initial_page\<lparr>isPageLoading := True, isJitsiLoading := False,
                     canJoinMeeting := False, isWaitingForHost := False,
                     activeMeeting := Some \<lparr>s_id = ''abc123'', s_displayName = ''John  Smith'',
                                             s_isHost = False, s_row = sample_row\<rparr>\<rparr>))
               \<lparr>isPageLoading := False\<rparr>"
    using nb h i
    by (simp add: initializeMeeting_def join_meeting_def viewer_env_fields validate_abc
          initial_not_initialized Let_def str_truthy_def)
  have r: "toasts (initializeMeeting (viewer_env ''John  Smith'' None) initial_page) = [] \<and>
           navigations (initializeMeeting (viewer_env ''John  Smith'' None) initial_page) = [] \<and>
           widget_mounted (initializeMeeting (viewer_env ''John  Smith'' None) initial_page)"
    unfolding run
    by (simp add: handleParticipantJoin_def widget_mounted_def initial_page_def)
  have bl: "banned_display_names sample_row = Some [Some ''john smith'']"
    by (simp add: sample_row_def)
  from n bl nb r show ?thesis by simp
qed

lemma isHost_iff:
  "isHost env cid row \<longleftrightarrow>
     (\<exists>t. localStorage env (''hostToken_'' @ cid) = Some t \<and> t \<noteq> [] \<and> host_token row = Some t)"
  by (auto simp: isHost_def str_truthy_def Let_def split: option.splits)

lemma handleHostJoin_requests_once:
  "handleHostJoin env s = Inr s' \<Longrightarrow> jwtRequests s' = jwtRequests s + 1"
  by (auto simp: handleHostJoin_def showToast_def Let_def split: jwt_outcome.splits option.splits)

lemma handleHostJoin_fallback:
  assumes "createAdminJwt env = JwtTimeout \<or> createAdminJwt env = JwtRejected (Some m)"
  shows "\<exists>s' msg. handleHostJoin env s = Inr s' \<and> adminJwt s' = None \<and> canJoinMeeting s' \<and>
           activeMeeting s' = activeMeeting s \<and>
           toasts s' = toasts s @ [Toast ''Host Setup Error'' msg ''warning'']"
  using assms
  by (auto simp: handleHostJoin_def showToast_def Let_def)

lemma host_without_credential_not_mounted:
  assumes "validateMeetingAccess (meetingId env) (pathname env) = Valid cid web"
    and "\<not> already_initialized s cid"
    and "resolve_identity env s = Some ident"
    and "fetchMeeting env cid = Some row"
    and "\<not> isBanned row (i_displayName ident)"
    and "isHost env cid row"
    and "createAdminJwt env = JwtTimeout \<or> createAdminJwt env = JwtRejected (Some m)"
  shows "canJoinMeeting (initializeMeeting env s) \<and> adminJwt (initializeMeeting env s) = None \<and>
         \<not> widget_mounted (initializeMeeting env s)"
proof -
  define s1 where
    "s1 = s\<lparr>isPageLoading := True, isJitsiLoading := False, canJoinMeeting := False,
            isWaitingForHost := False,
            activeMeeting := Some \<lparr>s_id = cid, s_displayName = i_displayName ident,
                                    s_isHost = True, s_row = row\<rparr>\<rparr>"
  from handleHostJoin_fallback [OF assms(7), of s1] obtain s2 msg where
    h: "handleHostJoin env s1 = Inr s2" and j: "adminJwt s2 = None" and c: "canJoinMeeting s2"
    and a: "activeMeeting s2 = activeMeeting s1"
    by blast
  have run: "initializeMeeting env s = s2\<lparr>isPageLoading := False\<rparr>"
    using valid_truthy [OF assms(1)] assms(1-6) h
    by (simp add: initializeMeeting_def join_meeting_def Let_def s1_def)
  show ?thesis
    unfolding run using j c a
    by (simp add: widget_mounted_def s1_def str_truthy_def)
qed

lemma host_env_fields:
  "meetingId (host_env j) = Some ''abc123''"
  "pathname (host_env j) = ''/meeting/abc123''"
  "fetchMeeting (host_env j) ''abc123'' = Some sample_row"
  "createAdminJwt (host_env j) = j"
  by (simp_all add: host_env_def)

lemma host_identity:
  "resolve_identity (host_env j)
     (signed_in_page\<lparr>isPageLoading := True, isJitsiLoading := False,
        canJoinMeeting := False, isWaitingForHost := False\<rparr>) =
   Some \<lparr>isGuest = False, i_displayName = ''Ann Lee'',
         i_currentUser = Some \<lparr>u_email = Some ''ann@example.com'', full_name = Some ''Ann Lee''\<rparr>\<rparr>"
  by (simp add: resolve_identity_def host_env_def joinAsGuest_def str_or_def signed_in_page_def
        initial_page_def Let_def)

lemma host_is_host: "isHost (host_env j) ''abc123'' sample_row"
  by (simp add: isHost_def host_env_def sample_row_def str_truthy_def)

lemma ann_not_banned: "\<not> isBanned sample_row ''Ann Lee''"
  by (simp add: isBanned_def sample_row_def toLowerCase_def trim_def is_space_def
        lower_char_def str_or_def)

lemma host_run:
  "initializeMeeting (host_env j) signed_in_page =
     (case handleHostJoin (host_env j)
             (signed_in_page\<lparr>isPageLoading := True, isJitsiLoading := False,
                canJoinMeeting := False, isWaitingForHost := False,
                activeMeeting := Some \<lparr>s_id = ''abc123'', s_displayName = ''Ann Lee'',
                                        s_isHost = True, s_row = sample_row\<rparr>\<rparr>) of
        Inr s2 \<Rightarrow> s2\<lparr>isPageLoading := False\<rparr>
      | Inl e \<Rightarrow>
          (navigate (landing (host_env j))
             (showToast
                (Toast ''Connection Error'' ''Unable to connect to meeting. Please try again.''
                   ''error'')
                (signed_in_page\<lparr>isPageLoading := True, isJitsiLoading := False,
                   canJoinMeeting := False, isWaitingForHost := False,
                   activeMeeting := Some \<lparr>s_id = ''abc123'', s_displayName = ''Ann Lee'',
                                           s_isHost = True, s_row = sample_row\<rparr>,
                   jwtRequests := jwtRequests signed_in_page + 1\<rparr>)))
          \<lparr>isPageLoading := False\<rparr>)"
proof -
  have ni: "\<not> already_initialized signed_in_page ''abc123''"
    by (simp add: already_initialized_def signed_in_page_def initial_page_def)
  show ?thesis
    using ni host_identity [of j] host_is_host [of j] ann_not_banned
    by (simp add: initializeMeeting_def join_meeting_def host_env_fields validate_abc Let_def
          str_truthy_def split: sum.splits)
qed

text \<open>
  C6. The viewer whose stored host token equals the row's resolves as host and one
  credential is requested. When the request is rejected or times out, the warning toast is
  shown, the credential is cleared and \<^verbatim>\<open>canJoinMeeting\<close> is set, but the session
  descriptor still says host, so the condition under which the page renders the widget,
  \<^verbatim>\<open>(isHost && !!adminJwt) || (!isHost && canJoinMeeting)\<close>, is false: no widget is
  mounted and the viewer does not join. With a credential the widget is mounted.
\<close>

theorem host_fallback_does_not_mount:
  "isHost (host_env (JwtRejected (Some ''network error''))) ''abc123'' sample_row \<and>
   jwtRequests (initializeMeeting (host_env (JwtRejected (Some ''network error''))) signed_in_page) = 1 \<and>
   toasts (initializeMeeting (host_env (JwtRejected (Some ''network error''))) signed_in_page) =
     [Toast ''Host Setup Error''
        ''Failed to initialize host privileges. Joining as participant.'' ''warning''] \<and>
   canJoinMeeting (initializeMeeting (host_env (JwtRejected (Some ''network error''))) signed_in_page) \<and>
   adminJwt (initializeMeeting (host_env (JwtRejected (Some ''network error''))) signed_in_page) = None \<and>
   \<not> widget_mounted
        (initializeMeeting (host_env (JwtRejected (Some ''network error''))) signed_in_page) \<and>
   toasts (initializeMeeting (host_env JwtTimeout) signed_in_page) =
     [Toast ''Host Setup Error'' ''Host setup taking too long. Joining as participant.''
        ''warning''] \<and>
   canJoinMeeting (initializeMeeting (host_env JwtTimeout) signed_in_page) \<and>
   \<not> widget_mounted (initializeMeeting (host_env JwtTimeout) signed_in_page) \<and>
   widget_mounted (initializeMeeting (host_env (JwtResolved ''jwt-1'')) signed_in_page)"
proof -
  have a: "\<not> str_includes ''network error'' ''timeout''"
    by simp
  have r1: "handleHostJoin (host_env (JwtRejected (Some ''network error''))) s =
              Inr ((showToast (Toast ''Host Setup Error''
                      ''Failed to initialize host privileges. Joining as participant.''
                      ''warning'') (s\<lparr>jwtRequests := jwtRequests s + 1\<rparr>))
                   \<lparr>adminJwt := None, canJoinMeeting := True, isWaitingForHost := False,
                    isJitsiLoading := True\<rparr>)" for s
    using a by (simp add: handleHostJoin_def host_env_fields Let_def)
  have r2: "handleHostJoin (host_env JwtTimeout) s =
              Inr ((showToast (Toast ''Host Setup Error''
                      ''Host setup taking too long. Joining as participant.''
                      ''warning'') (s\<lparr>jwtRequests := jwtRequests s + 1\<rparr>))
                   \<lparr>adminJwt := None, canJoinMeeting := True, isWaitingForHost := False,
                    isJitsiLoading := True\<rparr>)" for s
    by (simp add: handleHostJoin_def host_env_fields Let_def)
  have r3: "handleHostJoin (host_env (JwtResolved ''jwt-1'')) s =
              Inr (s\<lparr>jwtRequests := jwtRequests s + 1, adminJwt := Some ''jwt-1'',
                     canJoinMeeting := True, isWaitingForHost := False,
                     isJitsiLoading := True\<rparr>)" for s
    by (simp add: handleHostJoin_def host_env_fields Let_def)
  show ?thesis
    unfolding host_run r1 r2 r3
    by (simp add: host_is_host showToast_def widget_mounted_def signed_in_page_def
          initial_page_def str_truthy_def)
qed

end
